theory Spec2Isabelle
  imports Main
begin

section \<open>Values shared by the three services\<close>

text \<open>
  The order, product and customer services are three Go programs built on the same
  libraries: gin for HTTP, encoding/json, and the client SDKs of DynamoDB, S3, Redis and
  MySQL. The handlers are modelled as functions from the request and the state of the remote
  stores to the response and the new state. What a remote call answers is decided outside
  the program, so every handler also takes the answers of the environment for this request:
  for each kind of call either \<open>None\<close> (the call goes through) or \<open>Some m\<close> (the call
  fails with an error whose message is \<open>m\<close>). Every remote call is appended to a log
  kept in the state, so that "this handler did not touch that store" is a statement about
  the log.
\<close>

subsection \<open>JSON documents and byte strings\<close>

text \<open>
  A JSON document, as encoding/json reads and writes it. A number keeps its literal text.
  The strings of the records are texts: whatever reaches a record through the decoder is
  valid UTF-8, and the encoder writes such a string as it is.
\<close>

datatype json =
    JNull
  | JBool bool
  | JNumber string
  | JString string
  | JArray "json list"
  | JObject "(string \<times> json) list"

text \<open>
  A byte string as the decoder sees it: the text of one JSON document, or bytes that are not
  JSON, kept with the message of the syntax error that the decoder reports on them.
  \<open>json.Marshal\<close> only produces the former. Request bodies, Redis values and S3 objects are
  such byte strings.
\<close>

datatype data = JSON json | NotJSON string

text \<open>
  Go errors. \<open>redis.Nil\<close> and \<open>sql.ErrNoRows\<close> are the two sentinel values the drivers
  return for an absent key and an empty result set; \<open>ErrDuplicateEntry\<close> is MySQL's error
  1062 for the given key; \<open>Err m\<close> is any other error, with its message.
\<close>

datatype error = RedisNil | ErrNoRows | ErrDuplicateEntry string | Err string

fun Error :: "error \<Rightarrow> string" where
  "Error RedisNil = ''redis: nil''"
| "Error ErrNoRows = ''sql: no rows in result set''"
| "Error (ErrDuplicateEntry k) = ''Error 1062 (23000): Duplicate entry '' @ k"
| "Error (Err m) = m"

text \<open>An HTTP response written with \<open>c.JSON(status, obj)\<close>, and \<open>gin.H{k: v}\<close>.\<close>

record response =
  status :: nat
  body :: json

definition StatusOK :: nat where "StatusOK = 200"
definition StatusCreated :: nat where "StatusCreated = 201"
definition StatusBadRequest :: nat where "StatusBadRequest = 400"
definition StatusNotFound :: nat where "StatusNotFound = 404"
definition StatusInternalServerError :: nat where "StatusInternalServerError = 500"

definition H :: "string \<Rightarrow> string \<Rightarrow> json" where
  "H k v = JObject [(k, JString v)]"

definition c_JSON :: "nat \<Rightarrow> json \<Rightarrow> response" where
  "c_JSON st obj = \<lparr>status = st, body = obj\<rparr>"

text \<open>\<open>c.DefaultQuery("id", "")\<close>: the query parameter, or the default when it is absent.\<close>

definition DefaultQuery :: "string option \<Rightarrow> string \<Rightarrow> string" where
  "DefaultQuery q d = (case q of None \<Rightarrow> d | Some v \<Rightarrow> v)"

subsection \<open>Decoding a JSON document into a struct of string fields\<close>

text \<open>
  All three record types are structs of three string fields with json tags. The decoder
  matches an object key against the tags, exactly first and then ignoring the case of ASCII
  letters; a key that matches no tag is skipped. A matched JSON string is stored, a matched
  \<open>null\<close> leaves the field as it is, any other matched value is a type error (the first one
  is the error returned). A top-level \<open>null\<close> leaves the struct at its zero value, any other
  top-level value that is not an object is a type error. The result is the map from tag to
  field value, the empty string where nothing was stored.
\<close>

definition lower :: "char \<Rightarrow> char" where
  "lower c = (case map_of (zip ''ABCDEFGHIJKLMNOPQRSTUVWXYZ'' ''abcdefghijklmnopqrstuvwxyz'') c of
                None \<Rightarrow> c | Some d \<Rightarrow> d)"

definition field_of :: "string list \<Rightarrow> string \<Rightarrow> string option" where
  "field_of tags key =
     (case find (\<lambda>t. t = key) tags of
        Some t \<Rightarrow> Some t
      | None \<Rightarrow> find (\<lambda>t. map lower t = map lower key) tags)"

fun kind :: "json \<Rightarrow> string" where
  "kind JNull = ''null''"
| "kind (JBool b) = ''bool''"
| "kind (JNumber n) = ''number''"
| "kind (JString s) = ''string''"
| "kind (JArray xs) = ''array''"
| "kind (JObject kvs) = ''object''"

fun object_fields ::
  "string \<Rightarrow> string list \<Rightarrow> (string \<times> json) list \<Rightarrow> (string \<Rightarrow> string) \<Rightarrow> error + (string \<Rightarrow> string)"
where
  "object_fields T tags [] fs = Inr fs"
| "object_fields T tags ((k, v) # kvs) fs =
     (case field_of tags k of
        None \<Rightarrow> object_fields T tags kvs fs
      | Some t \<Rightarrow>
          (case v of
             JString s \<Rightarrow> object_fields T tags kvs (fs(t := s))
           | JNull \<Rightarrow> object_fields T tags kvs fs
           | _ \<Rightarrow> Inl (Err (''json: cannot unmarshal '' @ kind v @ '' into Go struct field ''
                             @ T @ ''.'' @ t @ '' of type string''))))"

definition unmarshal_struct :: "string \<Rightarrow> string list \<Rightarrow> data \<Rightarrow> error + (string \<Rightarrow> string)" where
  "unmarshal_struct T tags d =
     (case d of
        NotJSON m \<Rightarrow> Inl (Err m)
      | JSON JNull \<Rightarrow> Inr (\<lambda>t. [])
      | JSON (JObject kvs) \<Rightarrow> object_fields T tags kvs (\<lambda>t. [])
      | JSON v \<Rightarrow> Inl (Err (''json: cannot unmarshal '' @ kind v @ '' into Go value of type main.'' @ T)))"

section \<open>The order service (order.go)\<close>

record Order =
  ID :: string
  CustomerID :: string
  ProductID :: string

text \<open>The attribute values of the DynamoDB SDK, and an item: a map from attribute name to value.\<close>

datatype AttributeValue =
    AttributeValueMemberS string
  | AttributeValueMemberN string
  | AttributeValueMemberB string
  | AttributeValueMemberBOOL bool
  | AttributeValueMemberNULL bool
  | AttributeValueMemberSS "string list"
  | AttributeValueMemberNS "string list"
  | AttributeValueMemberBS "string list"
  | AttributeValueMemberL "AttributeValue list"
  | AttributeValueMemberM "(string \<times> AttributeValue) list"

type_synonym item = "string \<rightharpoonup> AttributeValue"

text \<open>The remote calls of the order service, as they are logged.\<close>

datatype order_call =
    GetItem string
  | PutItem item
  | Scan
  | PutObject string data

text \<open>
  The state the order service works on: the items of the DynamoDB table \<open>order\<close>, whose key
  is the attribute \<open>id\<close>, in the order a scan returns them; the objects of the S3 bucket by
  key; and the log of remote calls.
\<close>

record order_state =
  table :: "item list"
  objects :: "string \<rightharpoonup> data"
  order_calls :: "order_call list"

text \<open>
  The answers of the environment to the remote calls of one request. For the scan there is,
  besides failure, the size of the response: DynamoDB returns at most 1 MB of items from one
  \<open>Scan\<close> call, with a \<open>LastEvaluatedKey\<close> to continue from. \<open>Scan_page = None\<close> says that the
  response holds the whole table, \<open>Scan_page = Some n\<close> that it stops after \<open>n\<close> items.
\<close>

record order_env =
  GetItem_fails :: "string option"
  PutItem_fails :: "string option"
  Scan_fails :: "string option"
  Scan_page :: "nat option"
  PutObject_fails :: "string option"

text \<open>
  The SDK calls. \<open>GetItem\<close> returns the item with the given key, or no item. \<open>PutItem\<close>
  without a condition expression stores the item under its key, replacing an item that has the
  same key. \<open>Scan\<close> returns the items of the table from the start, as many as the response holds
  (the code makes one call and does not read \<open>LastEvaluatedKey\<close>). \<open>PutObject\<close> stores the
  object under the key, replacing the one there.
\<close>

definition dynamo_GetItem :: "order_env \<Rightarrow> string \<Rightarrow> order_state \<Rightarrow> (error + item option) \<times> order_state" where
  "dynamo_GetItem env key s =
     (let s' = s\<lparr>order_calls := order_calls s @ [GetItem key]\<rparr> in
      case GetItem_fails env of
        Some m \<Rightarrow> (Inl (Err m), s')
      | None \<Rightarrow> (Inr (find (\<lambda>it. it ''id'' = Some (AttributeValueMemberS key)) (table s)), s'))"

fun put_item :: "item \<Rightarrow> item list \<Rightarrow> item list" where
  "put_item it [] = [it]"
| "put_item it (x # xs) = (if x ''id'' = it ''id'' then it # xs else x # put_item it xs)"

definition dynamo_PutItem :: "order_env \<Rightarrow> item \<Rightarrow> order_state \<Rightarrow> error option \<times> order_state" where
  "dynamo_PutItem env it s =
     (let s' = s\<lparr>order_calls := order_calls s @ [PutItem it]\<rparr> in
      case PutItem_fails env of
        Some m \<Rightarrow> (Some (Err m), s')
      | None \<Rightarrow> (None, s'\<lparr>table := put_item it (table s)\<rparr>))"

definition scan_page :: "order_env \<Rightarrow> item list \<Rightarrow> item list" where
  "scan_page env tbl = (case Scan_page env of None \<Rightarrow> tbl | Some n \<Rightarrow> take n tbl)"

definition dynamo_Scan :: "order_env \<Rightarrow> order_state \<Rightarrow> (error + item list) \<times> order_state" where
  "dynamo_Scan env s =
     (let s' = s\<lparr>order_calls := order_calls s @ [Scan]\<rparr> in
      case Scan_fails env of
        Some m \<Rightarrow> (Inl (Err m), s')
      | None \<Rightarrow> (Inr (scan_page env (table s)), s'))"

definition s3_PutObject :: "order_env \<Rightarrow> string \<Rightarrow> data \<Rightarrow> order_state \<Rightarrow> error option \<times> order_state" where
  "s3_PutObject env key d s =
     (let s' = s\<lparr>order_calls := order_calls s @ [PutObject key d]\<rparr> in
      case PutObject_fails env of
        Some m \<Rightarrow> (Some (Err m), s')
      | None \<Rightarrow> (None, s'\<lparr>objects := (objects s)(key \<mapsto> d)\<rparr>))"

text \<open>
  encoding/json on \<open>Order\<close> and \<open>[]Order\<close>. A struct is written as the object of its tagged
  fields in declaration order; a nil slice is written as \<open>null\<close>, any other slice as an
  array. Marshalling these types never fails; the result keeps Go's error component.
  A \<open>[]Order\<close> is \<open>None\<close> for the nil slice.
\<close>

definition json_of_Order :: "Order \<Rightarrow> json" where
  "json_of_Order order = JObject [(''id'', JString (Order.ID order)),
                                  (''customerid'', JString (CustomerID order)),
                                  (''productid'', JString (ProductID order))]"

definition Marshal_Orders :: "Order list option \<Rightarrow> error + data" where
  "Marshal_Orders orders =
     (case orders of
        None \<Rightarrow> Inr (JSON JNull)
      | Some xs \<Rightarrow> Inr (JSON (JArray (map json_of_Order xs))))"

definition ShouldBindJSON_Order :: "data \<Rightarrow> error + Order" where
  "ShouldBindJSON_Order d =
     (case unmarshal_struct ''Order'' [''id'', ''customerid'', ''productid''] d of
        Inl err \<Rightarrow> Inl err
      | Inr fs \<Rightarrow> Inr \<lparr>Order.ID = fs ''id'', CustomerID = fs ''customerid'', ProductID = fs ''productid''\<rparr>)"

text \<open>\<open>append\<close> on a slice that may be nil.\<close>

definition append_slice :: "'a list option \<Rightarrow> 'a \<Rightarrow> 'a list option" where
  "append_slice xs x = (case xs of None \<Rightarrow> Some [x] | Some ys \<Rightarrow> Some (ys @ [x]))"

definition getOrderFromDynamoDB :: "order_env \<Rightarrow> string \<Rightarrow> order_state \<Rightarrow> (error + Order option) \<times> order_state" where
  "getOrderFromDynamoDB env orderID s =
     (case dynamo_GetItem env orderID s of
        (Inl err, s') \<Rightarrow> (Inl err, s')
      | (Inr None, s') \<Rightarrow> (Inr None, s')
      | (Inr (Some Item), s') \<Rightarrow>
          (Inr (Some \<lparr>Order.ID = (case Item ''id'' of Some (AttributeValueMemberS v) \<Rightarrow> v | _ \<Rightarrow> []),
                      CustomerID = (case Item ''customerid'' of Some (AttributeValueMemberS v) \<Rightarrow> v | _ \<Rightarrow> []),
                      ProductID = (case Item ''productid'' of Some (AttributeValueMemberS v) \<Rightarrow> v | _ \<Rightarrow> [])\<rparr>),
           s'))"

definition saveOrderToDynamoDB :: "order_env \<Rightarrow> Order \<Rightarrow> order_state \<Rightarrow> error option \<times> order_state" where
  "saveOrderToDynamoDB env order s =
     dynamo_PutItem env [''id'' \<mapsto> AttributeValueMemberS (Order.ID order),
                         ''customerid'' \<mapsto> AttributeValueMemberS (CustomerID order),
                         ''productid'' \<mapsto> AttributeValueMemberS (ProductID order)] s"

text \<open>The loop of \<open>getAllOrdersFromDynamoDB\<close> over the items of the scan.\<close>

fun range_Items :: "item list \<Rightarrow> Order list option \<Rightarrow> Order list option" where
  "range_Items [] orders = orders"
| "range_Items (item # Items) orders =
     range_Items Items
       (append_slice orders
          \<lparr>Order.ID = (case item ''id'' of Some (AttributeValueMemberS v) \<Rightarrow> v | _ \<Rightarrow> []),
           CustomerID = (case item ''customerid'' of Some (AttributeValueMemberS v) \<Rightarrow> v | _ \<Rightarrow> []),
           ProductID = (case item ''productid'' of Some (AttributeValueMemberS v) \<Rightarrow> v | _ \<Rightarrow> [])\<rparr>)"

definition getAllOrdersFromDynamoDB :: "order_env \<Rightarrow> order_state \<Rightarrow> (error + Order list option) \<times> order_state" where
  "getAllOrdersFromDynamoDB env s =
     (case dynamo_Scan env s of
        (Inl err, s') \<Rightarrow> (Inl err, s')
      | (Inr Items, s') \<Rightarrow> (Inr (range_Items Items None), s'))"

definition saveDataToS3 :: "order_env \<Rightarrow> data \<Rightarrow> order_state \<Rightarrow> error option \<times> order_state" where
  "saveDataToS3 env d s = s3_PutObject env ''orders_data.json'' d s"

definition getOrder :: "order_env \<Rightarrow> string option \<Rightarrow> order_state \<Rightarrow> response \<times> order_state" where
  "getOrder env q s =
     (let orderID = DefaultQuery q [] in
      case getOrderFromDynamoDB env orderID s of
        (Inl err, s') \<Rightarrow> (c_JSON StatusInternalServerError (H ''error'' ''failed to fetch order''), s')
      | (Inr None, s') \<Rightarrow> (c_JSON StatusNotFound (H ''error'' ''order not found''), s')
      | (Inr (Some orderData), s') \<Rightarrow> (c_JSON StatusOK (json_of_Order orderData), s'))"

definition createOrder :: "order_env \<Rightarrow> data \<Rightarrow> order_state \<Rightarrow> response \<times> order_state" where
  "createOrder env request_body s =
     (case ShouldBindJSON_Order request_body of
        Inl err \<Rightarrow> (c_JSON StatusBadRequest (H ''error'' (Error err)), s)
      | Inr order \<Rightarrow>
          (case saveOrderToDynamoDB env order s of
             (Some err, s') \<Rightarrow> (c_JSON StatusInternalServerError (H ''error'' ''failed to save order''), s')
           | (None, s') \<Rightarrow> (c_JSON StatusCreated (H ''message'' ''Order created successfully''), s')))"

definition saveOrdersToS3 :: "order_env \<Rightarrow> order_state \<Rightarrow> response \<times> order_state" where
  "saveOrdersToS3 env s =
     (case getAllOrdersFromDynamoDB env s of
        (Inl err, s1) \<Rightarrow> (c_JSON StatusInternalServerError (H ''error'' ''failed to fetch orders''), s1)
      | (Inr orders, s1) \<Rightarrow>
          (case Marshal_Orders orders of
             Inl err \<Rightarrow> (c_JSON StatusInternalServerError (H ''error'' ''failed to marshal orders''), s1)
           | Inr d \<Rightarrow>
               (case saveDataToS3 env d s1 of
                  (Some err, s2) \<Rightarrow> (c_JSON StatusInternalServerError (H ''error'' ''failed to save data to S3''), s2)
                | (None, s2) \<Rightarrow> (c_JSON StatusOK (H ''message'' ''Orders saved to S3 successfully''), s2))))"

section \<open>The stores of the product and customer services\<close>

text \<open>
  product.go and customer.go are the same program on two record types. Each works on a MySQL
  table through sqlx and on a Redis cache; the remote calls are logged with their arguments.
\<close>

datatype store_call =
    RedisGet string
  | RedisSet string data nat
  | DBGet string "string list"
  | DBExec string "string list"

record 'r store_state =
  rows :: "'r list"
  cache :: "string \<rightharpoonup> data"
  calls :: "store_call list"

record store_env =
  RedisGet_fails :: "string option"
  RedisSet_fails :: "string option"
  DBGet_fails :: "string option"
  DBExec_fails :: "string option"

text \<open>
  \<open>redisClient.Get(ctx, key).Result()\<close> gives the value under the key, or \<open>redis.Nil\<close> when
  there is none. \<open>redisClient.Set(ctx, key, value, expiration).Err()\<close> stores the value under
  the key; the model has no clock, an entry stays until it is overwritten, which is what the
  expiration 0 of the callers asks for.
\<close>

definition redis_Get :: "store_env \<Rightarrow> string \<Rightarrow> 'r store_state \<Rightarrow> (error + data) \<times> 'r store_state" where
  "redis_Get env key s =
     (let s' = s\<lparr>calls := calls s @ [RedisGet key]\<rparr> in
      case RedisGet_fails env of
        Some m \<Rightarrow> (Inl (Err m), s')
      | None \<Rightarrow>
          (case cache s key of
             None \<Rightarrow> (Inl RedisNil, s')
           | Some v \<Rightarrow> (Inr v, s')))"

definition redis_Set :: "store_env \<Rightarrow> string \<Rightarrow> data \<Rightarrow> nat \<Rightarrow> 'r store_state \<Rightarrow> error option \<times> 'r store_state" where
  "redis_Set env key v expiration s =
     (let s' = s\<lparr>calls := calls s @ [RedisSet key v expiration]\<rparr> in
      case RedisSet_fails env of
        Some m \<Rightarrow> (Some (Err m), s')
      | None \<Rightarrow> (None, s'\<lparr>cache := (cache s)(key \<mapsto> v)\<rparr>))"

text \<open>
  \<open>db.Get(&dest, "SELECT ... WHERE id = ?", id)\<close> fills \<open>dest\<close> from the first row of the
  result and returns \<open>sql.ErrNoRows\<close> when the result is empty. The parameter \<open>key\<close> is the
  column \<open>id\<close> of a row.
\<close>

definition db_Get ::
  "('r \<Rightarrow> string) \<Rightarrow> store_env \<Rightarrow> string \<Rightarrow> string \<Rightarrow> 'r store_state \<Rightarrow> (error + 'r) \<times> 'r store_state"
where
  "db_Get key env query arg s =
     (let s' = s\<lparr>calls := calls s @ [DBGet query [arg]]\<rparr> in
      case DBGet_fails env of
        Some m \<Rightarrow> (Inl (Err m), s')
      | None \<Rightarrow>
          (case find (\<lambda>r. key r = arg) (rows s) of
             None \<Rightarrow> (Inl ErrNoRows, s')
           | Some r \<Rightarrow> (Inr r, s')))"

text \<open>
  Modelled from the spec: the schema of the tables \<open>product\<close> and \<open>customers\<close> is not in the
  sources; the data model of the specification makes \<open>id\<close> the primary key of each table.
  So \<open>db.Exec("INSERT INTO ... VALUES (?, ?, ?)", ...)\<close> adds the row, and fails with MySQL's
  duplicate-entry error, leaving the table as it is, when a row with the same \<open>id\<close> exists.
\<close>

definition db_Exec ::
  "('r \<Rightarrow> string) \<Rightarrow> store_env \<Rightarrow> string \<Rightarrow> string list \<Rightarrow> 'r \<Rightarrow> 'r store_state \<Rightarrow> error option \<times> 'r store_state"
where
  "db_Exec key env query args row s =
     (let s' = s\<lparr>calls := calls s @ [DBExec query args]\<rparr> in
      case DBExec_fails env of
        Some m \<Rightarrow> (Some (Err m), s')
      | None \<Rightarrow>
          (if \<exists>r \<in> set (rows s). key r = key row
           then (Some (ErrDuplicateEntry (key row)), s')
           else (None, s'\<lparr>rows := rows s @ [row]\<rparr>)))"

section \<open>The product service (product.go)\<close>

record Product =
  ID :: string
  Name :: string
  Category :: string

text \<open>encoding/json on \<open>Product\<close>; marshalling a struct of strings never fails.\<close>

definition json_of_Product :: "Product \<Rightarrow> json" where
  "json_of_Product product = JObject [(''id'', JString (Product.ID product)),
                                  (''name'', JString (Product.Name product)),
                                  (''category'', JString (Category product))]"

definition Marshal_Product :: "Product \<Rightarrow> error + data" where
  "Marshal_Product product = Inr (JSON (json_of_Product product))"

definition Unmarshal_Product :: "data \<Rightarrow> error + Product" where
  "Unmarshal_Product d =
     (case unmarshal_struct ''Product'' [''id'', ''name'', ''category''] d of
        Inl err \<Rightarrow> Inl err
      | Inr fs \<Rightarrow> Inr \<lparr>Product.ID = fs ''id'', Product.Name = fs ''name'', Category = fs ''category''\<rparr>)"

definition ShouldBindJSON_Product :: "data \<Rightarrow> error + Product" where
  "ShouldBindJSON_Product d = Unmarshal_Product d"

definition getFromCache_product :: "store_env \<Rightarrow> string \<Rightarrow> Product store_state \<Rightarrow> (error + Product option) \<times> Product store_state" where
  "getFromCache_product env productID s =
     (case redis_Get env productID s of
        (Inl err, s') \<Rightarrow>
          (case err of
             RedisNil \<Rightarrow> (Inr None, s')
           | _ \<Rightarrow> (Inl err, s'))
      | (Inr val, s') \<Rightarrow>
          (case Unmarshal_Product val of
             Inl err \<Rightarrow> (Inl err, s')
           | Inr product \<Rightarrow> (Inr (Some product), s')))"

definition saveToCache_product :: "store_env \<Rightarrow> Product \<Rightarrow> Product store_state \<Rightarrow> Product store_state" where
  "saveToCache_product env product s =
     (case Marshal_Product product of
        Inl err \<Rightarrow> s
      | Inr d \<Rightarrow> snd (redis_Set env (Product.ID product) d 0 s))"

definition getFromDB_product :: "store_env \<Rightarrow> string \<Rightarrow> Product store_state \<Rightarrow> (error + Product) \<times> Product store_state" where
  "getFromDB_product env productID s =
     db_Get Product.ID env ''SELECT id, name, category FROM product WHERE id = ?'' productID s"

definition saveToDB_product :: "store_env \<Rightarrow> Product \<Rightarrow> Product store_state \<Rightarrow> error option \<times> Product store_state" where
  "saveToDB_product env product s =
     db_Exec Product.ID env ''INSERT INTO product (id, name, category) VALUES (?, ?, ?)''
       [Product.ID product, Product.Name product, Category product] product s"

definition getProduct :: "store_env \<Rightarrow> string option \<Rightarrow> Product store_state \<Rightarrow> response \<times> Product store_state" where
  "getProduct env q s =
     (let productID = DefaultQuery q [] in
      case getFromCache_product env productID s of
        (Inl err, s1) \<Rightarrow> (c_JSON StatusInternalServerError (H ''error'' ''failed to fetch from cache''), s1)
      | (Inr (Some productData), s1) \<Rightarrow> (c_JSON StatusOK (json_of_Product productData), s1)
      | (Inr None, s1) \<Rightarrow>
          (case getFromDB_product env productID s1 of
             (Inl err, s2) \<Rightarrow> (c_JSON StatusInternalServerError (H ''error'' ''failed to fetch from DB''), s2)
           | (Inr productData, s2) \<Rightarrow>
               (c_JSON StatusOK (json_of_Product productData), saveToCache_product env productData s2)))"

definition createProduct :: "store_env \<Rightarrow> data \<Rightarrow> Product store_state \<Rightarrow> response \<times> Product store_state" where
  "createProduct env request_body s =
     (case ShouldBindJSON_Product request_body of
        Inl err \<Rightarrow> (c_JSON StatusBadRequest (H ''error'' (Error err)), s)
      | Inr product \<Rightarrow>
          (case saveToDB_product env product s of
             (Some err, s1) \<Rightarrow> (c_JSON StatusInternalServerError (H ''error'' ''failed to save to DB''), s1)
           | (None, s1) \<Rightarrow>
               (c_JSON StatusCreated (H ''message'' ''Product created successfully''), saveToCache_product env product s1)))"

section \<open>The customer service (customer.go)\<close>

record Customer =
  ID :: string
  Name :: string
  Gender :: string

text \<open>encoding/json on \<open>Customer\<close>; marshalling a struct of strings never fails.\<close>

definition json_of_Customer :: "Customer \<Rightarrow> json" where
  "json_of_Customer customer = JObject [(''id'', JString (Customer.ID customer)),
                                  (''name'', JString (Customer.Name customer)),
                                  (''gender'', JString (Gender customer))]"

definition Marshal_Customer :: "Customer \<Rightarrow> error + data" where
  "Marshal_Customer customer = Inr (JSON (json_of_Customer customer))"

definition Unmarshal_Customer :: "data \<Rightarrow> error + Customer" where
  "Unmarshal_Customer d =
     (case unmarshal_struct ''Customer'' [''id'', ''name'', ''gender''] d of
        Inl err \<Rightarrow> Inl err
      | Inr fs \<Rightarrow> Inr \<lparr>Customer.ID = fs ''id'', Customer.Name = fs ''name'', Gender = fs ''gender''\<rparr>)"

definition ShouldBindJSON_Customer :: "data \<Rightarrow> error + Customer" where
  "ShouldBindJSON_Customer d = Unmarshal_Customer d"

definition getFromCache_customer :: "store_env \<Rightarrow> string \<Rightarrow> Customer store_state \<Rightarrow> (error + Customer option) \<times> Customer store_state" where
  "getFromCache_customer env customerID s =
     (case redis_Get env customerID s of
        (Inl err, s') \<Rightarrow>
          (case err of
             RedisNil \<Rightarrow> (Inr None, s')
           | _ \<Rightarrow> (Inl err, s'))
      | (Inr val, s') \<Rightarrow>
          (case Unmarshal_Customer val of
             Inl err \<Rightarrow> (Inl err, s')
           | Inr customer \<Rightarrow> (Inr (Some customer), s')))"

definition saveToCache_customer :: "store_env \<Rightarrow> Customer \<Rightarrow> Customer store_state \<Rightarrow> Customer store_state" where
  "saveToCache_customer env customer s =
     (case Marshal_Customer customer of
        Inl err \<Rightarrow> s
      | Inr d \<Rightarrow> snd (redis_Set env (Customer.ID customer) d 0 s))"

definition getFromDB_customer :: "store_env \<Rightarrow> string \<Rightarrow> Customer store_state \<Rightarrow> (error + Customer) \<times> Customer store_state" where
  "getFromDB_customer env customerID s =
     db_Get Customer.ID env ''SELECT id, name, gender FROM customers WHERE id = ?'' customerID s"

definition saveToDB_customer :: "store_env \<Rightarrow> Customer \<Rightarrow> Customer store_state \<Rightarrow> error option \<times> Customer store_state" where
  "saveToDB_customer env customer s =
     db_Exec Customer.ID env ''INSERT INTO customers (id, name, gender) VALUES (?, ?, ?)''
       [Customer.ID customer, Customer.Name customer, Gender customer] customer s"

definition getCustomer :: "store_env \<Rightarrow> string option \<Rightarrow> Customer store_state \<Rightarrow> response \<times> Customer store_state" where
  "getCustomer env q s =
     (let customerID = DefaultQuery q [] in
      case getFromCache_customer env customerID s of
        (Inl err, s1) \<Rightarrow> (c_JSON StatusInternalServerError (H ''error'' ''failed to fetch from cache''), s1)
      | (Inr (Some customerData), s1) \<Rightarrow> (c_JSON StatusOK (json_of_Customer customerData), s1)
      | (Inr None, s1) \<Rightarrow>
          (case getFromDB_customer env customerID s1 of
             (Inl err, s2) \<Rightarrow> (c_JSON StatusInternalServerError (H ''error'' ''failed to fetch from DB''), s2)
           | (Inr customerData, s2) \<Rightarrow>
               (c_JSON StatusOK (json_of_Customer customerData), saveToCache_customer env customerData s2)))"

definition createCustomer :: "store_env \<Rightarrow> data \<Rightarrow> Customer store_state \<Rightarrow> response \<times> Customer store_state" where
  "createCustomer env request_body s =
     (case ShouldBindJSON_Customer request_body of
        Inl err \<Rightarrow> (c_JSON StatusBadRequest (H ''error'' (Error err)), s)
      | Inr customer \<Rightarrow>
          (case saveToDB_customer env customer s of
             (Some err, s1) \<Rightarrow> (c_JSON StatusInternalServerError (H ''error'' ''failed to save to DB''), s1)
           | (None, s1) \<Rightarrow>
               (c_JSON StatusCreated (H ''message'' ''Customer created successfully''), saveToCache_customer env customer s1)))"

section \<open>What the specification says, for comparison with the code\<close>

text \<open>
  The text of an attribute that is present with string type, the empty string for an
  attribute that is missing or of another type; and the order record read off an item
  in this way.
\<close>

definition string_or_empty :: "AttributeValue option \<Rightarrow> string" where
  "string_or_empty a = (case a of Some (AttributeValueMemberS v) \<Rightarrow> v | _ \<Rightarrow> [])"

definition Order_of_item :: "item \<Rightarrow> Order" where
  "Order_of_item it = \<lparr>Order.ID = string_or_empty (it ''id''),
                        CustomerID = string_or_empty (it ''customerid''),
                        ProductID = string_or_empty (it ''productid'')\<rparr>"

text \<open>The item that \<open>saveOrderToDynamoDB\<close> builds from an order.\<close>

definition item_of_Order :: "Order \<Rightarrow> item" where
  "item_of_Order order = [''id'' \<mapsto> AttributeValueMemberS (Order.ID order),
                          ''customerid'' \<mapsto> AttributeValueMemberS (CustomerID order),
                          ''productid'' \<mapsto> AttributeValueMemberS (ProductID order)]"

inductive reachable_products :: "Product store_state \<Rightarrow> bool" where
  empty: "reachable_products \<lparr>rows = [], cache = Map.empty, calls = []\<rparr>"
| create: "reachable_products s \<Longrightarrow> reachable_products (snd (createProduct env b s))"
| read: "reachable_products s \<Longrightarrow> reachable_products (snd (getProduct env q s))"

definition coherent_products :: "Product store_state \<Rightarrow> bool" where
  "coherent_products s \<longleftrightarrow>
     (\<forall>k v. cache s k = Some v \<longrightarrow>
        (\<exists>p. Unmarshal_Product v = Inr p \<and> find (\<lambda>r. Product.ID r = k) (rows s) = Some p))"

inductive reachable_customers :: "Customer store_state \<Rightarrow> bool" where
  empty: "reachable_customers \<lparr>rows = [], cache = Map.empty, calls = []\<rparr>"
| create: "reachable_customers s \<Longrightarrow> reachable_customers (snd (createCustomer env b s))"
| read: "reachable_customers s \<Longrightarrow> reachable_customers (snd (getCustomer env q s))"

definition coherent_customers :: "Customer store_state \<Rightarrow> bool" where
  "coherent_customers s \<longleftrightarrow>
     (\<forall>k v. cache s k = Some v \<longrightarrow>
        (\<exists>p. Unmarshal_Customer v = Inr p \<and> find (\<lambda>r. Customer.ID r = k) (rows s) = Some p))"

text \<open>
  The requests that may come between a create and a later read. \<open>orders_later order s t\<close>:
  the order service gets from \<open>s\<close> to \<open>t\<close> by reads, exports and creates, under any answers
  of the environment, none of the creates being a conflicting write for \<open>order\<close>, that is a
  create answered 201 that stores another record under the id of \<open>order\<close>. For products and
  customers every sequence of creates and reads is admitted.
\<close>

inductive orders_later :: "Order \<Rightarrow> order_state \<Rightarrow> order_state \<Rightarrow> bool" for order s where
  now: "orders_later order s s"
| read: "orders_later order s t \<Longrightarrow> orders_later order s (snd (getOrder env q t))"
| export: "orders_later order s t \<Longrightarrow> orders_later order s (snd (saveOrdersToS3 env t))"
| create: "orders_later order s t \<Longrightarrow>
           (\<forall>other. ShouldBindJSON_Order b = Inr other \<longrightarrow> Order.ID other = Order.ID order \<longrightarrow>
                    status (fst (createOrder env b t)) = 201 \<longrightarrow> other = order) \<Longrightarrow>
           orders_later order s (snd (createOrder env b t))"

inductive products_later :: "Product store_state \<Rightarrow> Product store_state \<Rightarrow> bool" for s where
  now: "products_later s s"
| create: "products_later s t \<Longrightarrow> products_later s (snd (createProduct env b t))"
| read: "products_later s t \<Longrightarrow> products_later s (snd (getProduct env q t))"

inductive customers_later :: "Customer store_state \<Rightarrow> Customer store_state \<Rightarrow> bool" for s where
  now: "customers_later s s"
| create: "customers_later s t \<Longrightarrow> customers_later s (snd (createCustomer env b t))"
| read: "customers_later s t \<Longrightarrow> customers_later s (snd (getCustomer env q t))"

section \<open>Example values\<close>

text \<open>
  An environment in which every remote call goes through, and one record of each kind.
\<close>

abbreviation up :: store_env where
  "up \<equiv> \<lparr>RedisGet_fails = None, RedisSet_fails = None, DBGet_fails = None, DBExec_fails = None\<rparr>"

abbreviation widget :: Product where
  "widget \<equiv> \<lparr>Product.ID = ''p1'', Product.Name = ''widget'', Category = ''tools''\<rparr>"

abbreviation alice :: Customer where
  "alice \<equiv> \<lparr>Customer.ID = ''c1'', Customer.Name = ''alice'', Gender = ''f''\<rparr>"

abbreviation order_up :: order_env where
  "order_up \<equiv> \<lparr>GetItem_fails = None, PutItem_fails = None, Scan_fails = None, Scan_page = None, PutObject_fails = None\<rparr>"

abbreviation get_fails :: store_env where
  "get_fails \<equiv> \<lparr>RedisGet_fails = Some ''i/o timeout'', RedisSet_fails = None, DBGet_fails = None, DBExec_fails = None\<rparr>"

abbreviation set_fails :: store_env where
  "set_fails \<equiv> \<lparr>RedisGet_fails = None, RedisSet_fails = Some ''READONLY'', DBGet_fails = None, DBExec_fails = None\<rparr>"

abbreviation db_fails :: store_env where
  "db_fails \<equiv> \<lparr>RedisGet_fails = None, RedisSet_fails = None, DBGet_fails = Some ''connection refused'', DBExec_fails = None\<rparr>"

abbreviation get_item_fails :: order_env where
  "get_item_fails \<equiv> \<lparr>GetItem_fails = Some ''request timeout'', PutItem_fails = None, Scan_fails = None, Scan_page = None, PutObject_fails = None\<rparr>"

abbreviation widget_body :: data where
  "widget_body \<equiv> JSON (JObject [(''id'', JString ''p1''), (''name'', JString ''widget''),
                                 (''category'', JString ''tools'')])"

abbreviation alice_body :: data where
  "alice_body \<equiv> JSON (JObject [(''id'', JString ''c1''), (''name'', JString ''alice''),
                                (''gender'', JString ''f'')])"

abbreviation first_order :: Order where
  "first_order \<equiv> \<lparr>Order.ID = ''o1'', CustomerID = ''c1'', ProductID = ''p1''\<rparr>"

abbreviation first_order_body :: data where
  "first_order_body \<equiv> JSON (JObject [(''id'', JString ''o1''), (''customerid'', JString ''c1''),
                                      (''productid'', JString ''p1'')])"

abbreviation second_order_body :: data where
  "second_order_body \<equiv> JSON (JObject [(''id'', JString ''o1''), (''customerid'', JString ''c2''),
                                       (''productid'', JString ''p2'')])"

abbreviation empty_store :: "'r store_state" where
  "empty_store \<equiv> \<lparr>rows = [], cache = Map.empty, calls = []\<rparr>"

abbreviation no_orders :: order_state where
  "no_orders \<equiv> \<lparr>table = [], objects = Map.empty, order_calls = []\<rparr>"

abbreviation gadget_body :: data where
  "gadget_body \<equiv> JSON (JObject [(''id'', JString ''p2''), (''name'', JString ''gadget''),
                                 (''category'', JString ''tools'')])"

abbreviation other_order_body :: data where
  "other_order_body \<equiv> JSON (JObject [(''id'', JString ''o2''), (''customerid'', JString ''c1''),
                                      (''productid'', JString ''p2'')])"

section \<open>Basic facts about the stores\<close>

lemma string_or_empty_cases:
  "string_or_empty None = []"
  "string_or_empty (Some (AttributeValueMemberS v)) = v"
  "(\<And>v. a \<noteq> Some (AttributeValueMemberS v)) \<Longrightarrow> string_or_empty a = []"
  by (auto simp: string_or_empty_def split: option.splits AttributeValue.splits)

lemma range_Items_map:
  "range_Items Items orders =
     (if Items = [] then orders
      else Some ((case orders of None \<Rightarrow> [] | Some ys \<Rightarrow> ys) @ map Order_of_item Items))"
  by (induction Items arbitrary: orders)
     (auto simp: append_slice_def Order_of_item_def string_or_empty_def split: option.splits)

lemma bind_NotJSON:
  "ShouldBindJSON_Order (NotJSON m) = Inl (Err m)"
  "ShouldBindJSON_Product (NotJSON m) = Inl (Err m)"
  "ShouldBindJSON_Customer (NotJSON m) = Inl (Err m)"
  by (simp_all add: ShouldBindJSON_Order_def ShouldBindJSON_Product_def ShouldBindJSON_Customer_def
        Unmarshal_Product_def Unmarshal_Customer_def unmarshal_struct_def)

lemmas status_defs = StatusOK_def StatusCreated_def StatusBadRequest_def StatusNotFound_def
  StatusInternalServerError_def

lemmas order_defs = getOrder_def createOrder_def saveOrdersToS3_def getOrderFromDynamoDB_def
  saveOrderToDynamoDB_def getAllOrdersFromDynamoDB_def saveDataToS3_def dynamo_GetItem_def
  dynamo_PutItem_def dynamo_Scan_def s3_PutObject_def Marshal_Orders_def c_JSON_def
  Let_def status_defs

lemmas store_defs = redis_Get_def redis_Set_def db_Get_def db_Exec_def c_JSON_def Let_def
  status_defs

lemmas product_defs = getProduct_def createProduct_def getFromCache_product_def
  saveToCache_product_def getFromDB_product_def saveToDB_product_def Marshal_Product_def store_defs

lemmas customer_defs = getCustomer_def createCustomer_def getFromCache_customer_def
  saveToCache_customer_def getFromDB_customer_def saveToDB_customer_def Marshal_Customer_def store_defs

lemma scan_page_whole: "Scan_page env = None \<Longrightarrow> scan_page env tbl = tbl"
  by (simp add: scan_page_def)

lemma getOrder_item:
  "GetItem_fails env = None \<Longrightarrow>
   find (\<lambda>it. it ''id'' = Some (AttributeValueMemberS (DefaultQuery q []))) (table s) = Some Item \<Longrightarrow>
   fst (getOrder env q s) = \<lparr>status = 200, body = json_of_Order (Order_of_item Item)\<rparr>"
  by (simp add: order_defs Order_of_item_def string_or_empty_def)

lemma getAllOrders_ok:
  "Scan_fails env = None \<Longrightarrow>
   fst (getAllOrdersFromDynamoDB env s) =
     Inr (if scan_page env (table s) = [] then None
          else Some (map Order_of_item (scan_page env (table s))))"
  by (simp add: order_defs range_Items_map)

lemma saveOrdersToS3_ok:
  "Scan_fails env = None \<Longrightarrow> PutObject_fails env = None \<Longrightarrow>
   status (fst (saveOrdersToS3 env s)) = 200"
  by (simp add: order_defs range_Items_map)

lemma getProduct_never_404: "status (fst (getProduct env q s)) \<noteq> 404"
  by (simp add: product_defs split: prod.splits sum.splits option.splits error.splits)

lemma getProduct_cache_error:
  "RedisGet_fails env = Some m \<Longrightarrow>
   getProduct env q s =
     (\<lparr>status = 500, body = H ''error'' ''failed to fetch from cache''\<rparr>,
      s\<lparr>calls := calls s @ [RedisGet (DefaultQuery q [])]\<rparr>)"
  by (simp add: product_defs)

lemma getProduct_cache_undecodable:
  "RedisGet_fails env = None \<Longrightarrow> cache s (DefaultQuery q []) = Some v \<Longrightarrow>
   Unmarshal_Product v = Inl e \<Longrightarrow>
   getProduct env q s =
     (\<lparr>status = 500, body = H ''error'' ''failed to fetch from cache''\<rparr>,
      s\<lparr>calls := calls s @ [RedisGet (DefaultQuery q [])]\<rparr>)"
  by (simp add: product_defs)

lemma getProduct_cache_hit:
  "RedisGet_fails env = None \<Longrightarrow> cache s (DefaultQuery q []) = Some v \<Longrightarrow>
   Unmarshal_Product v = Inr p \<Longrightarrow>
   getProduct env q s =
     (\<lparr>status = 200, body = json_of_Product p\<rparr>,
      s\<lparr>calls := calls s @ [RedisGet (DefaultQuery q [])]\<rparr>)"
  by (simp add: product_defs)

lemma getProduct_miss_db_error:
  "RedisGet_fails env = None \<Longrightarrow> cache s (DefaultQuery q []) = None \<Longrightarrow>
   DBGet_fails env = Some m \<Longrightarrow>
   getProduct env q s =
     (\<lparr>status = 500, body = H ''error'' ''failed to fetch from DB''\<rparr>,
      s\<lparr>calls := calls s @ [RedisGet (DefaultQuery q []),
                              DBGet ''SELECT id, name, category FROM product WHERE id = ?'' [DefaultQuery q []]]\<rparr>)"
  by (simp add: product_defs)

lemma getProduct_miss_db_absent:
  "RedisGet_fails env = None \<Longrightarrow> cache s (DefaultQuery q []) = None \<Longrightarrow>
   DBGet_fails env = None \<Longrightarrow> find (\<lambda>r. Product.ID r = DefaultQuery q []) (rows s) = None \<Longrightarrow>
   getProduct env q s =
     (\<lparr>status = 500, body = H ''error'' ''failed to fetch from DB''\<rparr>,
      s\<lparr>calls := calls s @ [RedisGet (DefaultQuery q []),
                              DBGet ''SELECT id, name, category FROM product WHERE id = ?'' [DefaultQuery q []]]\<rparr>)"
  by (simp add: product_defs)

lemma getProduct_miss_db_found:
  "RedisGet_fails env = None \<Longrightarrow> cache s (DefaultQuery q []) = None \<Longrightarrow>
   DBGet_fails env = None \<Longrightarrow> find (\<lambda>r. Product.ID r = DefaultQuery q []) (rows s) = Some p \<Longrightarrow>
   getProduct env q s =
     (\<lparr>status = 200, body = json_of_Product p\<rparr>,
      s\<lparr>calls := calls s @ [RedisGet (DefaultQuery q []),
                              DBGet ''SELECT id, name, category FROM product WHERE id = ?'' [DefaultQuery q []],
                              RedisSet (Product.ID p) (JSON (json_of_Product p)) 0],
         cache := (case RedisSet_fails env of
                     None \<Rightarrow> (cache s)(Product.ID p \<mapsto> JSON (json_of_Product p))
                   | Some m \<Rightarrow> cache s)\<rparr>)"
  by (simp add: product_defs split: option.splits)

lemma createProduct_inserted:
  "ShouldBindJSON_Product b = Inr p \<Longrightarrow> DBExec_fails env = None \<Longrightarrow>
   \<not> (\<exists>r \<in> set (rows s). Product.ID r = Product.ID p) \<Longrightarrow>
   createProduct env b s =
     (\<lparr>status = 201, body = H ''message'' ''Product created successfully''\<rparr>,
      s\<lparr>calls := calls s @ [DBExec ''INSERT INTO product (id, name, category) VALUES (?, ?, ?)''
                                [Product.ID p, Product.Name p, Category p],
                              RedisSet (Product.ID p) (JSON (json_of_Product p)) 0],
         rows := rows s @ [p],
         cache := (case RedisSet_fails env of
                     None \<Rightarrow> (cache s)(Product.ID p \<mapsto> JSON (json_of_Product p))
                   | Some m \<Rightarrow> cache s)\<rparr>)"
  by (simp add: product_defs split: option.splits)

lemma createProduct_duplicate:
  "ShouldBindJSON_Product b = Inr p \<Longrightarrow> \<exists>r \<in> set (rows s). Product.ID r = Product.ID p \<Longrightarrow>
   createProduct env b s =
     (\<lparr>status = 500, body = H ''error'' ''failed to save to DB''\<rparr>,
      s\<lparr>calls := calls s @ [DBExec ''INSERT INTO product (id, name, category) VALUES (?, ?, ?)''
                                [Product.ID p, Product.Name p, Category p]]\<rparr>)"
  by (auto simp: product_defs split: option.splits)

lemma createProduct_db_error:
  "ShouldBindJSON_Product b = Inr p \<Longrightarrow> DBExec_fails env = Some m \<Longrightarrow>
   createProduct env b s =
     (\<lparr>status = 500, body = H ''error'' ''failed to save to DB''\<rparr>,
      s\<lparr>calls := calls s @ [DBExec ''INSERT INTO product (id, name, category) VALUES (?, ?, ?)''
                                [Product.ID p, Product.Name p, Category p]]\<rparr>)"
  by (simp add: product_defs)

lemma createProduct_bad_body:
  "ShouldBindJSON_Product b = Inl e \<Longrightarrow>
   createProduct env b s = (\<lparr>status = 400, body = H ''error'' (Error e)\<rparr>, s)"
  by (simp add: product_defs)

lemma Unmarshal_Marshal_Product: "Unmarshal_Product (JSON (json_of_Product p)) = Inr p"
  by (simp add: Unmarshal_Product_def json_of_Product_def unmarshal_struct_def field_of_def)

lemma getCustomer_never_404: "status (fst (getCustomer env q s)) \<noteq> 404"
  by (simp add: customer_defs split: prod.splits sum.splits option.splits error.splits)

lemma getCustomer_cache_error:
  "RedisGet_fails env = Some m \<Longrightarrow>
   getCustomer env q s =
     (\<lparr>status = 500, body = H ''error'' ''failed to fetch from cache''\<rparr>,
      s\<lparr>calls := calls s @ [RedisGet (DefaultQuery q [])]\<rparr>)"
  by (simp add: customer_defs)

lemma getCustomer_cache_undecodable:
  "RedisGet_fails env = None \<Longrightarrow> cache s (DefaultQuery q []) = Some v \<Longrightarrow>
   Unmarshal_Customer v = Inl e \<Longrightarrow>
   getCustomer env q s =
     (\<lparr>status = 500, body = H ''error'' ''failed to fetch from cache''\<rparr>,
      s\<lparr>calls := calls s @ [RedisGet (DefaultQuery q [])]\<rparr>)"
  by (simp add: customer_defs)

lemma getCustomer_cache_hit:
  "RedisGet_fails env = None \<Longrightarrow> cache s (DefaultQuery q []) = Some v \<Longrightarrow>
   Unmarshal_Customer v = Inr p \<Longrightarrow>
   getCustomer env q s =
     (\<lparr>status = 200, body = json_of_Customer p\<rparr>,
      s\<lparr>calls := calls s @ [RedisGet (DefaultQuery q [])]\<rparr>)"
  by (simp add: customer_defs)

lemma getCustomer_miss_db_error:
  "RedisGet_fails env = None \<Longrightarrow> cache s (DefaultQuery q []) = None \<Longrightarrow>
   DBGet_fails env = Some m \<Longrightarrow>
   getCustomer env q s =
     (\<lparr>status = 500, body = H ''error'' ''failed to fetch from DB''\<rparr>,
      s\<lparr>calls := calls s @ [RedisGet (DefaultQuery q []),
                              DBGet ''SELECT id, name, gender FROM customers WHERE id = ?'' [DefaultQuery q []]]\<rparr>)"
  by (simp add: customer_defs)

lemma getCustomer_miss_db_absent:
  "RedisGet_fails env = None \<Longrightarrow> cache s (DefaultQuery q []) = None \<Longrightarrow>
   DBGet_fails env = None \<Longrightarrow> find (\<lambda>r. Customer.ID r = DefaultQuery q []) (rows s) = None \<Longrightarrow>
   getCustomer env q s =
     (\<lparr>status = 500, body = H ''error'' ''failed to fetch from DB''\<rparr>,
      s\<lparr>calls := calls s @ [RedisGet (DefaultQuery q []),
                              DBGet ''SELECT id, name, gender FROM customers WHERE id = ?'' [DefaultQuery q []]]\<rparr>)"
  by (simp add: customer_defs)

lemma getCustomer_miss_db_found:
  "RedisGet_fails env = None \<Longrightarrow> cache s (DefaultQuery q []) = None \<Longrightarrow>
   DBGet_fails env = None \<Longrightarrow> find (\<lambda>r. Customer.ID r = DefaultQuery q []) (rows s) = Some p \<Longrightarrow>
   getCustomer env q s =
     (\<lparr>status = 200, body = json_of_Customer p\<rparr>,
      s\<lparr>calls := calls s @ [RedisGet (DefaultQuery q []),
                              DBGet ''SELECT id, name, gender FROM customers WHERE id = ?'' [DefaultQuery q []],
                              RedisSet (Customer.ID p) (JSON (json_of_Customer p)) 0],
         cache := (case RedisSet_fails env of
                     None \<Rightarrow> (cache s)(Customer.ID p \<mapsto> JSON (json_of_Customer p))
                   | Some m \<Rightarrow> cache s)\<rparr>)"
  by (simp add: customer_defs split: option.splits)

lemma createCustomer_inserted:
  "ShouldBindJSON_Customer b = Inr p \<Longrightarrow> DBExec_fails env = None \<Longrightarrow>
   \<not> (\<exists>r \<in> set (rows s). Customer.ID r = Customer.ID p) \<Longrightarrow>
   createCustomer env b s =
     (\<lparr>status = 201, body = H ''message'' ''Customer created successfully''\<rparr>,
      s\<lparr>calls := calls s @ [DBExec ''INSERT INTO customers (id, name, gender) VALUES (?, ?, ?)''
                                [Customer.ID p, Customer.Name p, Gender p],
                              RedisSet (Customer.ID p) (JSON (json_of_Customer p)) 0],
         rows := rows s @ [p],
         cache := (case RedisSet_fails env of
                     None \<Rightarrow> (cache s)(Customer.ID p \<mapsto> JSON (json_of_Customer p))
                   | Some m \<Rightarrow> cache s)\<rparr>)"
  by (simp add: customer_defs split: option.splits)

lemma createCustomer_duplicate:
  "ShouldBindJSON_Customer b = Inr p \<Longrightarrow> \<exists>r \<in> set (rows s). Customer.ID r = Customer.ID p \<Longrightarrow>
   createCustomer env b s =
     (\<lparr>status = 500, body = H ''error'' ''failed to save to DB''\<rparr>,
      s\<lparr>calls := calls s @ [DBExec ''INSERT INTO customers (id, name, gender) VALUES (?, ?, ?)''
                                [Customer.ID p, Customer.Name p, Gender p]]\<rparr>)"
  by (auto simp: customer_defs split: option.splits)

lemma createCustomer_db_error:
  "ShouldBindJSON_Customer b = Inr p \<Longrightarrow> DBExec_fails env = Some m \<Longrightarrow>
   createCustomer env b s =
     (\<lparr>status = 500, body = H ''error'' ''failed to save to DB''\<rparr>,
      s\<lparr>calls := calls s @ [DBExec ''INSERT INTO customers (id, name, gender) VALUES (?, ?, ?)''
                                [Customer.ID p, Customer.Name p, Gender p]]\<rparr>)"
  by (simp add: customer_defs)

lemma createCustomer_bad_body:
  "ShouldBindJSON_Customer b = Inl e \<Longrightarrow>
   createCustomer env b s = (\<lparr>status = 400, body = H ''error'' (Error e)\<rparr>, s)"
  by (simp add: customer_defs)

lemma Unmarshal_Marshal_Customer: "Unmarshal_Customer (JSON (json_of_Customer p)) = Inr p"
  by (simp add: Unmarshal_Customer_def json_of_Customer_def unmarshal_struct_def field_of_def)

lemma getOrder_absent:
  "GetItem_fails env = None \<Longrightarrow>
   find (\<lambda>it. it ''id'' = Some (AttributeValueMemberS (DefaultQuery q []))) (table s) = None \<Longrightarrow>
   getOrder env q s =
     (\<lparr>status = 404, body = H ''error'' ''order not found''\<rparr>,
      s\<lparr>order_calls := order_calls s @ [GetItem (DefaultQuery q [])]\<rparr>)"
  by (simp add: order_defs)

lemma getOrder_error:
  "GetItem_fails env = Some m \<Longrightarrow>
   getOrder env q s =
     (\<lparr>status = 500, body = H ''error'' ''failed to fetch order''\<rparr>,
      s\<lparr>order_calls := order_calls s @ [GetItem (DefaultQuery q [])]\<rparr>)"
  by (simp add: order_defs)

lemma getOrder_found:
  "GetItem_fails env = None \<Longrightarrow>
   find (\<lambda>it. it ''id'' = Some (AttributeValueMemberS (DefaultQuery q []))) (table s) = Some Item \<Longrightarrow>
   getOrder env q s =
     (\<lparr>status = 200, body = json_of_Order (Order_of_item Item)\<rparr>,
      s\<lparr>order_calls := order_calls s @ [GetItem (DefaultQuery q [])]\<rparr>)"
  by (simp add: order_defs Order_of_item_def string_or_empty_def)

lemma createOrder_put:
  "ShouldBindJSON_Order b = Inr order \<Longrightarrow> PutItem_fails env = None \<Longrightarrow>
   createOrder env b s =
     (\<lparr>status = 201, body = H ''message'' ''Order created successfully''\<rparr>,
      s\<lparr>order_calls := order_calls s @ [PutItem (item_of_Order order)],
         table := put_item (item_of_Order order) (table s)\<rparr>)"
  by (simp add: order_defs item_of_Order_def)

lemma createOrder_error:
  "ShouldBindJSON_Order b = Inr order \<Longrightarrow> PutItem_fails env = Some m \<Longrightarrow>
   createOrder env b s =
     (\<lparr>status = 500, body = H ''error'' ''failed to save order''\<rparr>,
      s\<lparr>order_calls := order_calls s @ [PutItem (item_of_Order order)]\<rparr>)"
  by (simp add: order_defs item_of_Order_def)

lemma Order_of_item_of_Order: "Order_of_item (item_of_Order order) = order"
  by (simp add: Order_of_item_def item_of_Order_def string_or_empty_def)

lemma item_of_Order_id: "item_of_Order order ''id'' = Some (AttributeValueMemberS (Order.ID order))"
  by (simp add: item_of_Order_def)

lemma find_put_item:
  "it ''id'' = Some (AttributeValueMemberS k) \<Longrightarrow>
   find (\<lambda>x. x ''id'' = Some (AttributeValueMemberS k)) (put_item it tbl) = Some it"
  by (induction tbl) auto

lemma find_put_item_other:
  "it ''id'' \<noteq> Some (AttributeValueMemberS k) \<Longrightarrow>
   find (\<lambda>x. x ''id'' = Some (AttributeValueMemberS k)) (put_item it tbl) =
   find (\<lambda>x. x ''id'' = Some (AttributeValueMemberS k)) tbl"
  by (induction tbl) auto

lemma length_put_item:
  "length (put_item it tbl) = (if \<exists>x \<in> set tbl. x ''id'' = it ''id'' then length tbl else Suc (length tbl))"
  by (induction tbl) auto

lemma saveOrdersToS3_done:
  "Scan_fails env = None \<Longrightarrow> PutObject_fails env = None \<Longrightarrow>
   saveOrdersToS3 env s =
     (\<lparr>status = 200, body = H ''message'' ''Orders saved to S3 successfully''\<rparr>,
      s\<lparr>order_calls := order_calls s @
           [Scan, PutObject ''orders_data.json''
                    (JSON (if scan_page env (table s) = [] then JNull
                           else JArray (map (\<lambda>it. json_of_Order (Order_of_item it))
                                          (scan_page env (table s)))))],
         objects := (objects s)(''orders_data.json'' \<mapsto>
                    JSON (if scan_page env (table s) = [] then JNull
                          else JArray (map (\<lambda>it. json_of_Order (Order_of_item it))
                                         (scan_page env (table s)))))\<rparr>)"
  by (simp add: order_defs range_Items_map comp_def)

lemma saveOrdersToS3_status:
  "status (fst (saveOrdersToS3 env s)) = 200 \<longleftrightarrow> Scan_fails env = None \<and> PutObject_fails env = None"
  by (simp add: order_defs range_Items_map split: option.splits)

lemma saveOrdersToS3_failed:
  "Scan_fails env \<noteq> None \<or> PutObject_fails env \<noteq> None \<Longrightarrow>
   status (fst (saveOrdersToS3 env s)) = 500 \<and>
   objects (snd (saveOrdersToS3 env s)) = objects s \<and> table (snd (saveOrdersToS3 env s)) = table s"
  by (auto simp: order_defs range_Items_map split: option.splits)

lemma getProduct_miss_calls:
  assumes "RedisGet_fails env = None" "cache s (DefaultQuery q []) = None"
  shows "take (length (calls s) + 2) (calls (snd (getProduct env q s))) =
           calls s @ [RedisGet (DefaultQuery q []),
                      DBGet ''SELECT id, name, category FROM product WHERE id = ?'' [DefaultQuery q []]]"
proof (cases "DBGet_fails env")
  case (Some m)
  then show ?thesis using assms by (simp add: getProduct_miss_db_error)
next
  case None
  show ?thesis
  proof (cases "find (\<lambda>r. Product.ID r = DefaultQuery q []) (rows s)")
    case None
    with \<open>DBGet_fails env = None\<close> assms show ?thesis by (simp add: getProduct_miss_db_absent)
  next
    case (Some p)
    with \<open>DBGet_fails env = None\<close> assms show ?thesis by (simp add: getProduct_miss_db_found)
  qed
qed

lemma getProduct_absent_500:
  assumes "cache s (DefaultQuery q []) = None" "\<forall>r \<in> set (rows s). Product.ID r \<noteq> DefaultQuery q []"
  shows "status (fst (getProduct env q s)) = 500"
proof -
  from assms(2) have nf: "find (\<lambda>r. Product.ID r = DefaultQuery q []) (rows s) = None"
    by (simp add: find_None_iff)
  show ?thesis
  proof (cases "RedisGet_fails env")
    case (Some m)
    then show ?thesis by (simp add: getProduct_cache_error)
  next
    case None
    then show ?thesis using assms(1) nf
      by (cases "DBGet_fails env") (simp_all add: getProduct_miss_db_absent getProduct_miss_db_error)
  qed
qed

lemma getProduct_response_ignores_Set:
  "fst (getProduct (env\<lparr>RedisSet_fails := x\<rparr>) q s) = fst (getProduct env q s)"
  by (simp add: product_defs split: option.splits sum.splits)

lemma createProduct_response_ignores_Set:
  "fst (createProduct (env\<lparr>RedisSet_fails := x\<rparr>) b s) = fst (createProduct env b s)"
  by (simp add: product_defs split: option.splits sum.splits)

lemma getCustomer_miss_calls:
  assumes "RedisGet_fails env = None" "cache s (DefaultQuery q []) = None"
  shows "take (length (calls s) + 2) (calls (snd (getCustomer env q s))) =
           calls s @ [RedisGet (DefaultQuery q []),
                      DBGet ''SELECT id, name, gender FROM customers WHERE id = ?'' [DefaultQuery q []]]"
proof (cases "DBGet_fails env")
  case (Some m)
  then show ?thesis using assms by (simp add: getCustomer_miss_db_error)
next
  case None
  show ?thesis
  proof (cases "find (\<lambda>r. Customer.ID r = DefaultQuery q []) (rows s)")
    case None
    with \<open>DBGet_fails env = None\<close> assms show ?thesis by (simp add: getCustomer_miss_db_absent)
  next
    case (Some p)
    with \<open>DBGet_fails env = None\<close> assms show ?thesis by (simp add: getCustomer_miss_db_found)
  qed
qed

lemma getCustomer_absent_500:
  assumes "cache s (DefaultQuery q []) = None" "\<forall>r \<in> set (rows s). Customer.ID r \<noteq> DefaultQuery q []"
  shows "status (fst (getCustomer env q s)) = 500"
proof -
  from assms(2) have nf: "find (\<lambda>r. Customer.ID r = DefaultQuery q []) (rows s) = None"
    by (simp add: find_None_iff)
  show ?thesis
  proof (cases "RedisGet_fails env")
    case (Some m)
    then show ?thesis by (simp add: getCustomer_cache_error)
  next
    case None
    then show ?thesis using assms(1) nf
      by (cases "DBGet_fails env") (simp_all add: getCustomer_miss_db_absent getCustomer_miss_db_error)
  qed
qed

lemma getCustomer_response_ignores_Set:
  "fst (getCustomer (env\<lparr>RedisSet_fails := x\<rparr>) q s) = fst (getCustomer env q s)"
  by (simp add: customer_defs split: option.splits sum.splits)

lemma createCustomer_response_ignores_Set:
  "fst (createCustomer (env\<lparr>RedisSet_fails := x\<rparr>) b s) = fst (createCustomer env b s)"
  by (simp add: customer_defs split: option.splits sum.splits)

lemma getProduct_absent_body:
  assumes "RedisGet_fails env = None" "cache s (DefaultQuery q []) = None"
    "\<forall>r \<in> set (rows s). Product.ID r \<noteq> DefaultQuery q []"
  shows "fst (getProduct env q s) = \<lparr>status = 500, body = H ''error'' ''failed to fetch from DB''\<rparr>"
proof -
  from assms(3) have nf: "find (\<lambda>r. Product.ID r = DefaultQuery q []) (rows s) = None"
    by (simp add: find_None_iff)
  show ?thesis using assms(1,2) nf
    by (cases "DBGet_fails env") (simp_all add: getProduct_miss_db_absent getProduct_miss_db_error)
qed

lemma product_lookup_cases:
  "(RedisGet_fails penv = None \<longrightarrow> cache ps (DefaultQuery pq []) = Some pv \<longrightarrow>
      Unmarshal_Product pv = Inr pp \<longrightarrow>
      getProduct penv pq ps =
        (\<lparr>status = 200, body = json_of_Product pp\<rparr>,
         ps\<lparr>calls := calls ps @ [RedisGet (DefaultQuery pq [])]\<rparr>)) \<and>
   (RedisGet_fails penv = None \<longrightarrow> cache ps (DefaultQuery pq []) = None \<longrightarrow>
      take (length (calls ps) + 2) (calls (snd (getProduct penv pq ps))) =
        calls ps @ [RedisGet (DefaultQuery pq []),
                   DBGet ''SELECT id, name, category FROM product WHERE id = ?'' [DefaultQuery pq []]]) \<and>
   (RedisGet_fails penv = Some pm \<or>
    (RedisGet_fails penv = None \<and> cache ps (DefaultQuery pq []) = Some pv \<and> Unmarshal_Product pv = Inl pe) \<longrightarrow>
      getProduct penv pq ps =
        (\<lparr>status = 500, body = H ''error'' ''failed to fetch from cache''\<rparr>,
         ps\<lparr>calls := calls ps @ [RedisGet (DefaultQuery pq [])]\<rparr>))"
proof (intro conjI impI)
  assume "RedisGet_fails penv = None" "cache ps (DefaultQuery pq []) = Some pv" "Unmarshal_Product pv = Inr pp"
  then show "getProduct penv pq ps =
        (\<lparr>status = 200, body = json_of_Product pp\<rparr>,
         ps\<lparr>calls := calls ps @ [RedisGet (DefaultQuery pq [])]\<rparr>)"
    by (rule getProduct_cache_hit)
next
  assume "RedisGet_fails penv = None" "cache ps (DefaultQuery pq []) = None"
  then show "take (length (calls ps) + 2) (calls (snd (getProduct penv pq ps))) =
        calls ps @ [RedisGet (DefaultQuery pq []),
                   DBGet ''SELECT id, name, category FROM product WHERE id = ?'' [DefaultQuery pq []]]"
    by (rule getProduct_miss_calls)
next
  assume "RedisGet_fails penv = Some pm \<or>
    (RedisGet_fails penv = None \<and> cache ps (DefaultQuery pq []) = Some pv \<and> Unmarshal_Product pv = Inl pe)"
  then show "getProduct penv pq ps =
        (\<lparr>status = 500, body = H ''error'' ''failed to fetch from cache''\<rparr>,
         ps\<lparr>calls := calls ps @ [RedisGet (DefaultQuery pq [])]\<rparr>)"
    using getProduct_cache_error[of penv pm pq ps] getProduct_cache_undecodable[of penv ps pq pv pe]
    by blast
qed

lemma product_absent_id_500:
  "(cache ps (DefaultQuery pq []) = None \<longrightarrow> (\<forall>r \<in> set (rows ps). Product.ID r \<noteq> DefaultQuery pq []) \<longrightarrow>
      status (fst (getProduct penv pq ps)) = 500 \<and>
      (RedisGet_fails penv = None \<longrightarrow>
         fst (getProduct penv pq ps) = \<lparr>status = 500, body = H ''error'' ''failed to fetch from DB''\<rparr>)) \<and>
   (RedisGet_fails penv = None \<longrightarrow> cache ps (DefaultQuery pq []) = None \<longrightarrow> DBGet_fails penv = Some pm \<longrightarrow>
      fst (getProduct penv pq ps) = \<lparr>status = 500, body = H ''error'' ''failed to fetch from DB''\<rparr>) \<and>
   status (fst (getProduct penv pq ps)) \<noteq> 404"
  using getProduct_absent_500[of ps pq penv] getProduct_absent_body[of penv ps pq]
    getProduct_miss_db_error[of penv ps pq pm] getProduct_never_404[of penv pq ps]
  by simp

lemma product_set_failure:
  "(RedisGet_fails penv = None \<longrightarrow> cache ps (DefaultQuery pq []) = None \<longrightarrow> DBGet_fails penv = None \<longrightarrow>
      find (\<lambda>r. Product.ID r = DefaultQuery pq []) (rows ps) = Some pp \<longrightarrow> RedisSet_fails penv = Some pm \<longrightarrow>
      fst (getProduct penv pq ps) = \<lparr>status = 200, body = json_of_Product pp\<rparr> \<and>
      cache (snd (getProduct penv pq ps)) = cache ps) \<and>
   (ShouldBindJSON_Product pb = Inr pr \<longrightarrow> DBExec_fails penv = None \<longrightarrow>
      \<not> (\<exists>r \<in> set (rows ps). Product.ID r = Product.ID pr) \<longrightarrow> RedisSet_fails penv = Some pm \<longrightarrow>
      fst (createProduct penv pb ps) = \<lparr>status = 201, body = H ''message'' ''Product created successfully''\<rparr> \<and>
      rows (snd (createProduct penv pb ps)) = rows ps @ [pr] \<and>
      cache (snd (createProduct penv pb ps)) = cache ps) \<and>
   fst (getProduct (penv\<lparr>RedisSet_fails := px\<rparr>) pq ps) = fst (getProduct penv pq ps) \<and>
   fst (createProduct (penv\<lparr>RedisSet_fails := px\<rparr>) pb ps) = fst (createProduct penv pb ps)"
  by (simp add: getProduct_miss_db_found createProduct_inserted
        getProduct_response_ignores_Set createProduct_response_ignores_Set)

lemma getCustomer_absent_body:
  assumes "RedisGet_fails env = None" "cache s (DefaultQuery q []) = None"
    "\<forall>r \<in> set (rows s). Customer.ID r \<noteq> DefaultQuery q []"
  shows "fst (getCustomer env q s) = \<lparr>status = 500, body = H ''error'' ''failed to fetch from DB''\<rparr>"
proof -
  from assms(3) have nf: "find (\<lambda>r. Customer.ID r = DefaultQuery q []) (rows s) = None"
    by (simp add: find_None_iff)
  show ?thesis using assms(1,2) nf
    by (cases "DBGet_fails env") (simp_all add: getCustomer_miss_db_absent getCustomer_miss_db_error)
qed

lemma customer_lookup_cases:
  "(RedisGet_fails cenv = None \<longrightarrow> cache cs (DefaultQuery cq []) = Some cv \<longrightarrow>
      Unmarshal_Customer cv = Inr cp \<longrightarrow>
      getCustomer cenv cq cs =
        (\<lparr>status = 200, body = json_of_Customer cp\<rparr>,
         cs\<lparr>calls := calls cs @ [RedisGet (DefaultQuery cq [])]\<rparr>)) \<and>
   (RedisGet_fails cenv = None \<longrightarrow> cache cs (DefaultQuery cq []) = None \<longrightarrow>
      take (length (calls cs) + 2) (calls (snd (getCustomer cenv cq cs))) =
        calls cs @ [RedisGet (DefaultQuery cq []),
                   DBGet ''SELECT id, name, gender FROM customers WHERE id = ?'' [DefaultQuery cq []]]) \<and>
   (RedisGet_fails cenv = Some cm \<or>
    (RedisGet_fails cenv = None \<and> cache cs (DefaultQuery cq []) = Some cv \<and> Unmarshal_Customer cv = Inl ce) \<longrightarrow>
      getCustomer cenv cq cs =
        (\<lparr>status = 500, body = H ''error'' ''failed to fetch from cache''\<rparr>,
         cs\<lparr>calls := calls cs @ [RedisGet (DefaultQuery cq [])]\<rparr>))"
proof (intro conjI impI)
  assume "RedisGet_fails cenv = None" "cache cs (DefaultQuery cq []) = Some cv" "Unmarshal_Customer cv = Inr cp"
  then show "getCustomer cenv cq cs =
        (\<lparr>status = 200, body = json_of_Customer cp\<rparr>,
         cs\<lparr>calls := calls cs @ [RedisGet (DefaultQuery cq [])]\<rparr>)"
    by (rule getCustomer_cache_hit)
next
  assume "RedisGet_fails cenv = None" "cache cs (DefaultQuery cq []) = None"
  then show "take (length (calls cs) + 2) (calls (snd (getCustomer cenv cq cs))) =
        calls cs @ [RedisGet (DefaultQuery cq []),
                   DBGet ''SELECT id, name, gender FROM customers WHERE id = ?'' [DefaultQuery cq []]]"
    by (rule getCustomer_miss_calls)
next
  assume "RedisGet_fails cenv = Some cm \<or>
    (RedisGet_fails cenv = None \<and> cache cs (DefaultQuery cq []) = Some cv \<and> Unmarshal_Customer cv = Inl ce)"
  then show "getCustomer cenv cq cs =
        (\<lparr>status = 500, body = H ''error'' ''failed to fetch from cache''\<rparr>,
         cs\<lparr>calls := calls cs @ [RedisGet (DefaultQuery cq [])]\<rparr>)"
    using getCustomer_cache_error[of cenv cm cq cs] getCustomer_cache_undecodable[of cenv cs cq cv ce]
    by blast
qed

lemma customer_absent_id_500:
  "(cache cs (DefaultQuery cq []) = None \<longrightarrow> (\<forall>r \<in> set (rows cs). Customer.ID r \<noteq> DefaultQuery cq []) \<longrightarrow>
      status (fst (getCustomer cenv cq cs)) = 500 \<and>
      (RedisGet_fails cenv = None \<longrightarrow>
         fst (getCustomer cenv cq cs) = \<lparr>status = 500, body = H ''error'' ''failed to fetch from DB''\<rparr>)) \<and>
   (RedisGet_fails cenv = None \<longrightarrow> cache cs (DefaultQuery cq []) = None \<longrightarrow> DBGet_fails cenv = Some cm \<longrightarrow>
      fst (getCustomer cenv cq cs) = \<lparr>status = 500, body = H ''error'' ''failed to fetch from DB''\<rparr>) \<and>
   status (fst (getCustomer cenv cq cs)) \<noteq> 404"
  using getCustomer_absent_500[of cs cq cenv] getCustomer_absent_body[of cenv cs cq]
    getCustomer_miss_db_error[of cenv cs cq cm] getCustomer_never_404[of cenv cq cs]
  by simp

lemma customer_set_failure:
  "(RedisGet_fails cenv = None \<longrightarrow> cache cs (DefaultQuery cq []) = None \<longrightarrow> DBGet_fails cenv = None \<longrightarrow>
      find (\<lambda>r. Customer.ID r = DefaultQuery cq []) (rows cs) = Some cp \<longrightarrow> RedisSet_fails cenv = Some cm \<longrightarrow>
      fst (getCustomer cenv cq cs) = \<lparr>status = 200, body = json_of_Customer cp\<rparr> \<and>
      cache (snd (getCustomer cenv cq cs)) = cache cs) \<and>
   (ShouldBindJSON_Customer cb = Inr cr \<longrightarrow> DBExec_fails cenv = None \<longrightarrow>
      \<not> (\<exists>r \<in> set (rows cs). Customer.ID r = Customer.ID cr) \<longrightarrow> RedisSet_fails cenv = Some cm \<longrightarrow>
      fst (createCustomer cenv cb cs) = \<lparr>status = 201, body = H ''message'' ''Customer created successfully''\<rparr> \<and>
      rows (snd (createCustomer cenv cb cs)) = rows cs @ [cr] \<and>
      cache (snd (createCustomer cenv cb cs)) = cache cs) \<and>
   fst (getCustomer (cenv\<lparr>RedisSet_fails := cx\<rparr>) cq cs) = fst (getCustomer cenv cq cs) \<and>
   fst (createCustomer (cenv\<lparr>RedisSet_fails := cx\<rparr>) cb cs) = fst (createCustomer cenv cb cs)"
  by (simp add: getCustomer_miss_db_found createCustomer_inserted
        getCustomer_response_ignores_Set createCustomer_response_ignores_Set)

lemma order_absent_id_404:
  "(GetItem_fails oenv = None \<longrightarrow>
      (\<forall>it \<in> set (table os). it ''id'' \<noteq> Some (AttributeValueMemberS (DefaultQuery oq []))) \<longrightarrow>
      fst (getOrder oenv oq os) = \<lparr>status = 404, body = H ''error'' ''order not found''\<rparr>) \<and>
   (GetItem_fails oenv = Some om \<longrightarrow>
      fst (getOrder oenv oq os) = \<lparr>status = 500, body = H ''error'' ''failed to fetch order''\<rparr>)"
  by (simp add: getOrder_absent getOrder_error find_None_iff)

lemma Unmarshal_NotJSON:
  "Unmarshal_Product (NotJSON m) = Inl (Err m)"
  "Unmarshal_Customer (NotJSON m) = Inl (Err m)"
  by (simp_all add: Unmarshal_Product_def Unmarshal_Customer_def unmarshal_struct_def)

lemma ShouldBindJSON_json_of:
  "ShouldBindJSON_Product (JSON (json_of_Product p)) = Inr p"
  "ShouldBindJSON_Customer (JSON (json_of_Customer c)) = Inr c"
  by (simp_all add: ShouldBindJSON_Product_def ShouldBindJSON_Customer_def
        Unmarshal_Marshal_Product Unmarshal_Marshal_Customer)

lemma ShouldBindJSON_json_of_Order:
  "ShouldBindJSON_Order (JSON (json_of_Order order)) = Inr order"
  by (simp add: ShouldBindJSON_Order_def json_of_Order_def unmarshal_struct_def field_of_def)

lemma find_Some_holds: "find P xs = Some x \<Longrightarrow> P x"
  by (induction xs) (auto split: if_splits)

lemma find_Some_mem: "find P xs = Some x \<Longrightarrow> x \<in> set xs"
  by (induction xs) (auto split: if_splits)

lemma createProduct_effect:
  "(rows (snd (createProduct env b s)) = rows s \<and> cache (snd (createProduct env b s)) = cache s) \<or>
   (\<exists>p. \<not> (\<exists>r \<in> set (rows s). Product.ID r = Product.ID p) \<and>
        rows (snd (createProduct env b s)) = rows s @ [p] \<and>
        (cache (snd (createProduct env b s)) = cache s \<or>
         cache (snd (createProduct env b s)) = (cache s)(Product.ID p \<mapsto> JSON (json_of_Product p))))"
  by (auto simp: product_defs split: sum.splits option.splits)

lemma getProduct_effect:
  "rows (snd (getProduct env q s)) = rows s \<and>
   (cache (snd (getProduct env q s)) = cache s \<or>
    (\<exists>p. find (\<lambda>r. Product.ID r = Product.ID p) (rows s) = Some p \<and>
         cache (snd (getProduct env q s)) = (cache s)(Product.ID p \<mapsto> JSON (json_of_Product p))))"
proof (cases "RedisGet_fails env")
  case (Some m)
  then show ?thesis by (simp add: getProduct_cache_error)
next
  case up: None
  show ?thesis
  proof (cases "cache s (DefaultQuery q [])")
    case (Some v)
    with up show ?thesis
      by (cases "Unmarshal_Product v") (simp_all add: getProduct_cache_undecodable getProduct_cache_hit)
  next
    case miss: None
    show ?thesis
    proof (cases "DBGet_fails env")
      case (Some m)
      with up miss show ?thesis by (simp add: getProduct_miss_db_error)
    next
      case db: None
      show ?thesis
      proof (cases "find (\<lambda>r. Product.ID r = DefaultQuery q []) (rows s)")
        case None
        with up miss db show ?thesis by (simp add: getProduct_miss_db_absent)
      next
        case (Some p)
        then have "Product.ID p = DefaultQuery q []"
          by (rule find_Some_holds)
        with Some have "find (\<lambda>r. Product.ID r = Product.ID p) (rows s) = Some p" by simp
        with up miss db Some show ?thesis
          by (cases "RedisSet_fails env") (auto simp: getProduct_miss_db_found)
      qed
    qed
  qed
qed

lemma find_product_snoc:
  "find (\<lambda>r. Product.ID r = k) (xs @ [p]) =
     (case find (\<lambda>r. Product.ID r = k) xs of
        Some r \<Rightarrow> Some r
      | None \<Rightarrow> if Product.ID p = k then Some p else None)"
  by (induction xs) auto

lemma coherent_products_insert:
  assumes "coherent_products s" "\<not> (\<exists>r \<in> set (rows s). Product.ID r = Product.ID p)"
    "rows s' = rows s @ [p]"
    "cache s' = cache s \<or> cache s' = (cache s)(Product.ID p \<mapsto> JSON (json_of_Product p))"
  shows "coherent_products s'"
  unfolding coherent_products_def
proof (intro allI impI)
  fix k v assume kv: "cache s' k = Some v"
  from assms(2) have none: "find (\<lambda>r. Product.ID r = Product.ID p) (rows s) = None"
    by (simp add: find_None_iff)
  show "\<exists>q. Unmarshal_Product v = Inr q \<and> find (\<lambda>r. Product.ID r = k) (rows s') = Some q"
  proof (cases "cache s k = Some v")
    case True
    with assms(1) obtain q where "Unmarshal_Product v = Inr q" "find (\<lambda>r. Product.ID r = k) (rows s) = Some q"
      unfolding coherent_products_def by blast
    then show ?thesis by (auto simp: assms(3) find_product_snoc)
  next
    case False
    with kv assms(4) have "k = Product.ID p" "v = JSON (json_of_Product p)"
      by (auto split: if_splits)
    then show ?thesis
      by (simp add: Unmarshal_Marshal_Product assms(3) find_product_snoc none)
  qed
qed

lemma coherent_products_fill:
  assumes "coherent_products s" "find (\<lambda>r. Product.ID r = Product.ID p) (rows s) = Some p"
    "rows s' = rows s"
    "cache s' = (cache s)(Product.ID p \<mapsto> JSON (json_of_Product p))"
  shows "coherent_products s'"
  using assms unfolding coherent_products_def
  by (auto simp: Unmarshal_Marshal_Product)

lemma coherent_products_same:
  "coherent_products s \<Longrightarrow> rows s' = rows s \<Longrightarrow> cache s' = cache s \<Longrightarrow> coherent_products s'"
  unfolding coherent_products_def by simp

lemma reachable_products_coherent: "reachable_products s \<Longrightarrow> coherent_products s"
proof (induction rule: reachable_products.induct)
  case empty
  show ?case by (simp add: coherent_products_def)
next
  case (create s env b)
  from createProduct_effect[of env b s] show ?case
  proof (elim disjE exE conjE)
    assume "rows (snd (createProduct env b s)) = rows s" "cache (snd (createProduct env b s)) = cache s"
    with create.IH show ?thesis by (rule coherent_products_same)
  next
    fix p assume "\<not> (\<exists>r \<in> set (rows s). Product.ID r = Product.ID p)"
      "rows (snd (createProduct env b s)) = rows s @ [p]"
      "cache (snd (createProduct env b s)) = cache s"
    then show ?thesis using create.IH coherent_products_insert by blast
  next
    fix p assume "\<not> (\<exists>r \<in> set (rows s). Product.ID r = Product.ID p)"
      "rows (snd (createProduct env b s)) = rows s @ [p]"
      "cache (snd (createProduct env b s)) = (cache s)(Product.ID p \<mapsto> JSON (json_of_Product p))"
    then show ?thesis using create.IH coherent_products_insert by blast
  qed
next
  case (read s env q)
  from getProduct_effect[of env q s] show ?case
    using read.IH coherent_products_same coherent_products_fill by blast
qed

lemma createCustomer_effect:
  "(rows (snd (createCustomer env b s)) = rows s \<and> cache (snd (createCustomer env b s)) = cache s) \<or>
   (\<exists>p. \<not> (\<exists>r \<in> set (rows s). Customer.ID r = Customer.ID p) \<and>
        rows (snd (createCustomer env b s)) = rows s @ [p] \<and>
        (cache (snd (createCustomer env b s)) = cache s \<or>
         cache (snd (createCustomer env b s)) = (cache s)(Customer.ID p \<mapsto> JSON (json_of_Customer p))))"
  by (auto simp: customer_defs split: sum.splits option.splits)

lemma getCustomer_effect:
  "rows (snd (getCustomer env q s)) = rows s \<and>
   (cache (snd (getCustomer env q s)) = cache s \<or>
    (\<exists>p. find (\<lambda>r. Customer.ID r = Customer.ID p) (rows s) = Some p \<and>
         cache (snd (getCustomer env q s)) = (cache s)(Customer.ID p \<mapsto> JSON (json_of_Customer p))))"
proof (cases "RedisGet_fails env")
  case (Some m)
  then show ?thesis by (simp add: getCustomer_cache_error)
next
  case up: None
  show ?thesis
  proof (cases "cache s (DefaultQuery q [])")
    case (Some v)
    with up show ?thesis
      by (cases "Unmarshal_Customer v") (simp_all add: getCustomer_cache_undecodable getCustomer_cache_hit)
  next
    case miss: None
    show ?thesis
    proof (cases "DBGet_fails env")
      case (Some m)
      with up miss show ?thesis by (simp add: getCustomer_miss_db_error)
    next
      case db: None
      show ?thesis
      proof (cases "find (\<lambda>r. Customer.ID r = DefaultQuery q []) (rows s)")
        case None
        with up miss db show ?thesis by (simp add: getCustomer_miss_db_absent)
      next
        case (Some p)
        then have "Customer.ID p = DefaultQuery q []"
          by (rule find_Some_holds)
        with Some have "find (\<lambda>r. Customer.ID r = Customer.ID p) (rows s) = Some p" by simp
        with up miss db Some show ?thesis
          by (cases "RedisSet_fails env") (auto simp: getCustomer_miss_db_found)
      qed
    qed
  qed
qed

lemma find_customer_snoc:
  "find (\<lambda>r. Customer.ID r = k) (xs @ [p]) =
     (case find (\<lambda>r. Customer.ID r = k) xs of
        Some r \<Rightarrow> Some r
      | None \<Rightarrow> if Customer.ID p = k then Some p else None)"
  by (induction xs) auto

lemma coherent_customers_insert:
  assumes "coherent_customers s" "\<not> (\<exists>r \<in> set (rows s). Customer.ID r = Customer.ID p)"
    "rows s' = rows s @ [p]"
    "cache s' = cache s \<or> cache s' = (cache s)(Customer.ID p \<mapsto> JSON (json_of_Customer p))"
  shows "coherent_customers s'"
  unfolding coherent_customers_def
proof (intro allI impI)
  fix k v assume kv: "cache s' k = Some v"
  from assms(2) have none: "find (\<lambda>r. Customer.ID r = Customer.ID p) (rows s) = None"
    by (simp add: find_None_iff)
  show "\<exists>q. Unmarshal_Customer v = Inr q \<and> find (\<lambda>r. Customer.ID r = k) (rows s') = Some q"
  proof (cases "cache s k = Some v")
    case True
    with assms(1) obtain q where "Unmarshal_Customer v = Inr q" "find (\<lambda>r. Customer.ID r = k) (rows s) = Some q"
      unfolding coherent_customers_def by blast
    then show ?thesis by (auto simp: assms(3) find_customer_snoc)
  next
    case False
    with kv assms(4) have "k = Customer.ID p" "v = JSON (json_of_Customer p)"
      by (auto split: if_splits)
    then show ?thesis
      by (simp add: Unmarshal_Marshal_Customer assms(3) find_customer_snoc none)
  qed
qed

lemma coherent_customers_fill:
  assumes "coherent_customers s" "find (\<lambda>r. Customer.ID r = Customer.ID p) (rows s) = Some p"
    "rows s' = rows s"
    "cache s' = (cache s)(Customer.ID p \<mapsto> JSON (json_of_Customer p))"
  shows "coherent_customers s'"
  using assms unfolding coherent_customers_def
  by (auto simp: Unmarshal_Marshal_Customer)

lemma coherent_customers_same:
  "coherent_customers s \<Longrightarrow> rows s' = rows s \<Longrightarrow> cache s' = cache s \<Longrightarrow> coherent_customers s'"
  unfolding coherent_customers_def by simp

lemma reachable_customers_coherent: "reachable_customers s \<Longrightarrow> coherent_customers s"
proof (induction rule: reachable_customers.induct)
  case empty
  show ?case by (simp add: coherent_customers_def)
next
  case (create s env b)
  from createCustomer_effect[of env b s] show ?case
  proof (elim disjE exE conjE)
    assume "rows (snd (createCustomer env b s)) = rows s" "cache (snd (createCustomer env b s)) = cache s"
    with create.IH show ?thesis by (rule coherent_customers_same)
  next
    fix p assume "\<not> (\<exists>r \<in> set (rows s). Customer.ID r = Customer.ID p)"
      "rows (snd (createCustomer env b s)) = rows s @ [p]"
      "cache (snd (createCustomer env b s)) = cache s"
    then show ?thesis using create.IH coherent_customers_insert by blast
  next
    fix p assume "\<not> (\<exists>r \<in> set (rows s). Customer.ID r = Customer.ID p)"
      "rows (snd (createCustomer env b s)) = rows s @ [p]"
      "cache (snd (createCustomer env b s)) = (cache s)(Customer.ID p \<mapsto> JSON (json_of_Customer p))"
    then show ?thesis using create.IH coherent_customers_insert by blast
  qed
next
  case (read s env q)
  from getCustomer_effect[of env q s] show ?case
    using read.IH coherent_customers_same coherent_customers_fill by blast
qed

lemma createProduct_201:
  "status (fst (createProduct env b s)) = 201 \<Longrightarrow> ShouldBindJSON_Product b = Inr p \<Longrightarrow>
   DBExec_fails env = None \<and> \<not> (\<exists>r \<in> set (rows s). Product.ID r = Product.ID p)"
  by (auto simp: product_defs split: option.splits if_splits)

lemma reachable_products_distinct: "reachable_products s \<Longrightarrow> distinct (map Product.ID (rows s))"
proof (induction rule: reachable_products.induct)
  case empty
  show ?case by simp
next
  case (create s env b)
  from createProduct_effect[of env b s]
  consider (same) "rows (snd (createProduct env b s)) = rows s"
    | (ins) p where "\<not> (\<exists>r \<in> set (rows s). Product.ID r = Product.ID p)"
        "rows (snd (createProduct env b s)) = rows s @ [p]"
    by blast
  then show ?case
  proof cases
    case same
    with create.IH show ?thesis by simp
  next
    case ins
    from ins(1) have "Product.ID p \<notin> Product.ID ` set (rows s)" by (auto simp: image_iff)
    with create.IH ins(2) show ?thesis by simp
  qed
next
  case (read s env q)
  from getProduct_effect[of env q s] read.IH show ?case by simp
qed

lemma coherent_products_no_row_no_entry:
  assumes "coherent_products s" "\<not> (\<exists>r \<in> set (rows s). Product.ID r = k)"
  shows "cache s k = None"
proof (rule ccontr)
  assume "cache s k \<noteq> None"
  then obtain v where "cache s k = Some v" by auto
  with assms(1) obtain p where "find (\<lambda>r. Product.ID r = k) (rows s) = Some p"
    unfolding coherent_products_def by blast
  then have "p \<in> set (rows s)" "Product.ID p = k"
    by (auto dest: find_Some_mem find_Some_holds)
  with assms(2) show False by blast
qed

lemma product_create_then_hit:
  assumes bind: "ShouldBindJSON_Product b = Inr p"
    and created: "status (fst (createProduct env b s)) = 201"
  shows "calls (snd (createProduct env b s)) =
           calls s @ [DBExec ''INSERT INTO product (id, name, category) VALUES (?, ?, ?)''
                        [Product.ID p, Product.Name p, Category p],
                      RedisSet (Product.ID p) (JSON (json_of_Product p)) 0]"
    and "RedisSet_fails env = None \<Longrightarrow>
           cache (snd (createProduct env b s)) (Product.ID p) = Some (JSON (json_of_Product p))"
    and "RedisSet_fails env = None \<Longrightarrow> RedisGet_fails env' = None \<Longrightarrow>
           getProduct env' (Some (Product.ID p)) (snd (createProduct env b s)) =
             (\<lparr>status = 200, body = json_of_Product p\<rparr>,
              (snd (createProduct env b s))
                \<lparr>calls := calls (snd (createProduct env b s)) @ [RedisGet (Product.ID p)]\<rparr>)"
    and "RedisSet_fails env = Some m \<Longrightarrow> cache (snd (createProduct env b s)) = cache s"
proof -
  from createProduct_201[OF created bind]
  have ok: "DBExec_fails env = None" and fresh: "\<not> (\<exists>r \<in> set (rows s). Product.ID r = Product.ID p)"
    by simp_all
  note ins = createProduct_inserted[OF bind ok fresh]
  show "calls (snd (createProduct env b s)) =
           calls s @ [DBExec ''INSERT INTO product (id, name, category) VALUES (?, ?, ?)''
                        [Product.ID p, Product.Name p, Category p],
                      RedisSet (Product.ID p) (JSON (json_of_Product p)) 0]"
    by (simp add: ins)
  show c: "RedisSet_fails env = None \<Longrightarrow>
           cache (snd (createProduct env b s)) (Product.ID p) = Some (JSON (json_of_Product p))"
    by (simp add: ins)
  show "RedisSet_fails env = Some m \<Longrightarrow> cache (snd (createProduct env b s)) = cache s"
    by (simp add: ins)
  show "RedisSet_fails env = None \<Longrightarrow> RedisGet_fails env' = None \<Longrightarrow>
           getProduct env' (Some (Product.ID p)) (snd (createProduct env b s)) =
             (\<lparr>status = 200, body = json_of_Product p\<rparr>,
              (snd (createProduct env b s))
                \<lparr>calls := calls (snd (createProduct env b s)) @ [RedisGet (Product.ID p)]\<rparr>)"
  proof -
    assume set_up: "RedisSet_fails env = None" and get_up: "RedisGet_fails env' = None"
    have q: "DefaultQuery (Some (Product.ID p)) [] = Product.ID p" by (simp add: DefaultQuery_def)
    from c[OF set_up]
    have "cache (snd (createProduct env b s)) (DefaultQuery (Some (Product.ID p)) []) = Some (JSON (json_of_Product p))"
      by (simp add: q)
    from getProduct_cache_hit[OF get_up this Unmarshal_Marshal_Product] show ?thesis by (simp add: q)
  qed
qed

lemma createCustomer_201:
  "status (fst (createCustomer env b s)) = 201 \<Longrightarrow> ShouldBindJSON_Customer b = Inr p \<Longrightarrow>
   DBExec_fails env = None \<and> \<not> (\<exists>r \<in> set (rows s). Customer.ID r = Customer.ID p)"
  by (auto simp: customer_defs split: option.splits if_splits)

lemma reachable_customers_distinct: "reachable_customers s \<Longrightarrow> distinct (map Customer.ID (rows s))"
proof (induction rule: reachable_customers.induct)
  case empty
  show ?case by simp
next
  case (create s env b)
  from createCustomer_effect[of env b s]
  consider (same) "rows (snd (createCustomer env b s)) = rows s"
    | (ins) p where "\<not> (\<exists>r \<in> set (rows s). Customer.ID r = Customer.ID p)"
        "rows (snd (createCustomer env b s)) = rows s @ [p]"
    by blast
  then show ?case
  proof cases
    case same
    with create.IH show ?thesis by simp
  next
    case ins
    from ins(1) have "Customer.ID p \<notin> Customer.ID ` set (rows s)" by (auto simp: image_iff)
    with create.IH ins(2) show ?thesis by simp
  qed
next
  case (read s env q)
  from getCustomer_effect[of env q s] read.IH show ?case by simp
qed

lemma coherent_customers_no_row_no_entry:
  assumes "coherent_customers s" "\<not> (\<exists>r \<in> set (rows s). Customer.ID r = k)"
  shows "cache s k = None"
proof (rule ccontr)
  assume "cache s k \<noteq> None"
  then obtain v where "cache s k = Some v" by auto
  with assms(1) obtain p where "find (\<lambda>r. Customer.ID r = k) (rows s) = Some p"
    unfolding coherent_customers_def by blast
  then have "p \<in> set (rows s)" "Customer.ID p = k"
    by (auto dest: find_Some_mem find_Some_holds)
  with assms(2) show False by blast
qed

lemma customer_create_then_hit:
  assumes bind: "ShouldBindJSON_Customer b = Inr p"
    and created: "status (fst (createCustomer env b s)) = 201"
  shows "calls (snd (createCustomer env b s)) =
           calls s @ [DBExec ''INSERT INTO customers (id, name, gender) VALUES (?, ?, ?)''
                        [Customer.ID p, Customer.Name p, Gender p],
                      RedisSet (Customer.ID p) (JSON (json_of_Customer p)) 0]"
    and "RedisSet_fails env = None \<Longrightarrow>
           cache (snd (createCustomer env b s)) (Customer.ID p) = Some (JSON (json_of_Customer p))"
    and "RedisSet_fails env = None \<Longrightarrow> RedisGet_fails env' = None \<Longrightarrow>
           getCustomer env' (Some (Customer.ID p)) (snd (createCustomer env b s)) =
             (\<lparr>status = 200, body = json_of_Customer p\<rparr>,
              (snd (createCustomer env b s))
                \<lparr>calls := calls (snd (createCustomer env b s)) @ [RedisGet (Customer.ID p)]\<rparr>)"
    and "RedisSet_fails env = Some m \<Longrightarrow> cache (snd (createCustomer env b s)) = cache s"
proof -
  from createCustomer_201[OF created bind]
  have ok: "DBExec_fails env = None" and fresh: "\<not> (\<exists>r \<in> set (rows s). Customer.ID r = Customer.ID p)"
    by simp_all
  note ins = createCustomer_inserted[OF bind ok fresh]
  show "calls (snd (createCustomer env b s)) =
           calls s @ [DBExec ''INSERT INTO customers (id, name, gender) VALUES (?, ?, ?)''
                        [Customer.ID p, Customer.Name p, Gender p],
                      RedisSet (Customer.ID p) (JSON (json_of_Customer p)) 0]"
    by (simp add: ins)
  show c: "RedisSet_fails env = None \<Longrightarrow>
           cache (snd (createCustomer env b s)) (Customer.ID p) = Some (JSON (json_of_Customer p))"
    by (simp add: ins)
  show "RedisSet_fails env = Some m \<Longrightarrow> cache (snd (createCustomer env b s)) = cache s"
    by (simp add: ins)
  show "RedisSet_fails env = None \<Longrightarrow> RedisGet_fails env' = None \<Longrightarrow>
           getCustomer env' (Some (Customer.ID p)) (snd (createCustomer env b s)) =
             (\<lparr>status = 200, body = json_of_Customer p\<rparr>,
              (snd (createCustomer env b s))
                \<lparr>calls := calls (snd (createCustomer env b s)) @ [RedisGet (Customer.ID p)]\<rparr>)"
  proof -
    assume set_up: "RedisSet_fails env = None" and get_up: "RedisGet_fails env' = None"
    have q: "DefaultQuery (Some (Customer.ID p)) [] = Customer.ID p" by (simp add: DefaultQuery_def)
    from c[OF set_up]
    have "cache (snd (createCustomer env b s)) (DefaultQuery (Some (Customer.ID p)) []) = Some (JSON (json_of_Customer p))"
      by (simp add: q)
    from getCustomer_cache_hit[OF get_up this Unmarshal_Marshal_Customer] show ?thesis by (simp add: q)
  qed
qed

lemma createOrder_201:
  "status (fst (createOrder env b s)) = 201 \<Longrightarrow> PutItem_fails env = None"
  by (auto simp: order_defs split: sum.splits option.splits)

lemma product_cache_coherent:
  "(reachable_products ps \<longrightarrow>
      distinct (map Product.ID (rows ps)) \<and>
      (cache ps pk = Some pv \<longrightarrow>
         (\<exists>r. Unmarshal_Product pv = Inr r \<and> Product.ID r = pk \<and>
              find (\<lambda>r. Product.ID r = pk) (rows ps) = Some r)))"
proof (intro impI conjI)
  assume r: "reachable_products ps"
  then show "distinct (map Product.ID (rows ps))" by (rule reachable_products_distinct)
  assume "cache ps pk = Some pv"
  with reachable_products_coherent[OF r]
  obtain p where p: "Unmarshal_Product pv = Inr p" "find (\<lambda>r. Product.ID r = pk) (rows ps) = Some p"
    unfolding coherent_products_def by blast
  from p(2) have "Product.ID p = pk" by (rule find_Some_holds)
  with p show "\<exists>r. Unmarshal_Product pv = Inr r \<and> Product.ID r = pk \<and>
                  find (\<lambda>r. Product.ID r = pk) (rows ps) = Some r"
    by blast
qed

lemma product_create_then_hit_all:
  "(ShouldBindJSON_Product pb = Inr pr \<longrightarrow> status (fst (createProduct penv pb ps)) = 201 \<longrightarrow>
      calls (snd (createProduct penv pb ps)) =
        calls ps @ [DBExec ''INSERT INTO product (id, name, category) VALUES (?, ?, ?)''
                     [Product.ID pr, Product.Name pr, Category pr],
                   RedisSet (Product.ID pr) (JSON (json_of_Product pr)) 0] \<and>
      (RedisSet_fails penv = None \<longrightarrow>
         cache (snd (createProduct penv pb ps)) (Product.ID pr) = Some (JSON (json_of_Product pr)) \<and>
         (RedisGet_fails penv' = None \<longrightarrow>
            getProduct penv' (Some (Product.ID pr)) (snd (createProduct penv pb ps)) =
              (\<lparr>status = 200, body = json_of_Product pr\<rparr>,
               (snd (createProduct penv pb ps))
                 \<lparr>calls := calls (snd (createProduct penv pb ps)) @ [RedisGet (Product.ID pr)]\<rparr>))) \<and>
      (RedisSet_fails penv = Some pm \<longrightarrow> cache (snd (createProduct penv pb ps)) = cache ps))"
  using product_create_then_hit[of pb pr penv ps]
  by blast

lemma customer_cache_coherent:
  "(reachable_customers cs \<longrightarrow>
      distinct (map Customer.ID (rows cs)) \<and>
      (cache cs ck = Some cv \<longrightarrow>
         (\<exists>r. Unmarshal_Customer cv = Inr r \<and> Customer.ID r = ck \<and>
              find (\<lambda>r. Customer.ID r = ck) (rows cs) = Some r)))"
proof (intro impI conjI)
  assume r: "reachable_customers cs"
  then show "distinct (map Customer.ID (rows cs))" by (rule reachable_customers_distinct)
  assume "cache cs ck = Some cv"
  with reachable_customers_coherent[OF r]
  obtain p where p: "Unmarshal_Customer cv = Inr p" "find (\<lambda>r. Customer.ID r = ck) (rows cs) = Some p"
    unfolding coherent_customers_def by blast
  from p(2) have "Customer.ID p = ck" by (rule find_Some_holds)
  with p show "\<exists>r. Unmarshal_Customer cv = Inr r \<and> Customer.ID r = ck \<and>
                  find (\<lambda>r. Customer.ID r = ck) (rows cs) = Some r"
    by blast
qed

lemma customer_create_then_hit_all:
  "(ShouldBindJSON_Customer cb = Inr cr \<longrightarrow> status (fst (createCustomer cenv cb cs)) = 201 \<longrightarrow>
      calls (snd (createCustomer cenv cb cs)) =
        calls cs @ [DBExec ''INSERT INTO customers (id, name, gender) VALUES (?, ?, ?)''
                     [Customer.ID cr, Customer.Name cr, Gender cr],
                   RedisSet (Customer.ID cr) (JSON (json_of_Customer cr)) 0] \<and>
      (RedisSet_fails cenv = None \<longrightarrow>
         cache (snd (createCustomer cenv cb cs)) (Customer.ID cr) = Some (JSON (json_of_Customer cr)) \<and>
         (RedisGet_fails cenv' = None \<longrightarrow>
            getCustomer cenv' (Some (Customer.ID cr)) (snd (createCustomer cenv cb cs)) =
              (\<lparr>status = 200, body = json_of_Customer cr\<rparr>,
               (snd (createCustomer cenv cb cs))
                 \<lparr>calls := calls (snd (createCustomer cenv cb cs)) @ [RedisGet (Customer.ID cr)]\<rparr>))) \<and>
      (RedisSet_fails cenv = Some cm \<longrightarrow> cache (snd (createCustomer cenv cb cs)) = cache cs))"
  using customer_create_then_hit[of cb cr cenv cs]
  by blast

lemma bind_examples:
  "ShouldBindJSON_Product widget_body = Inr widget"
  "ShouldBindJSON_Customer alice_body = Inr alice"
  "ShouldBindJSON_Order first_order_body = Inr first_order"
  "ShouldBindJSON_Order second_order_body = Inr \<lparr>Order.ID = ''o1'', CustomerID = ''c2'', ProductID = ''p2''\<rparr>"
  by (simp_all add: ShouldBindJSON_Product_def ShouldBindJSON_Customer_def ShouldBindJSON_Order_def
        Unmarshal_Product_def Unmarshal_Customer_def unmarshal_struct_def field_of_def)

lemma created_examples:
  "createProduct up widget_body empty_store =
     (\<lparr>status = 201, body = H ''message'' ''Product created successfully''\<rparr>,
      \<lparr>rows = [widget], cache = [''p1'' \<mapsto> JSON (json_of_Product widget)],
       calls = [DBExec ''INSERT INTO product (id, name, category) VALUES (?, ?, ?)'' [''p1'', ''widget'', ''tools''],
                RedisSet ''p1'' (JSON (json_of_Product widget)) 0]\<rparr>)"
  "createProduct set_fails widget_body empty_store =
     (\<lparr>status = 201, body = H ''message'' ''Product created successfully''\<rparr>,
      \<lparr>rows = [widget], cache = Map.empty,
       calls = [DBExec ''INSERT INTO product (id, name, category) VALUES (?, ?, ?)'' [''p1'', ''widget'', ''tools''],
                RedisSet ''p1'' (JSON (json_of_Product widget)) 0]\<rparr>)"
  "createCustomer up alice_body empty_store =
     (\<lparr>status = 201, body = H ''message'' ''Customer created successfully''\<rparr>,
      \<lparr>rows = [alice], cache = [''c1'' \<mapsto> JSON (json_of_Customer alice)],
       calls = [DBExec ''INSERT INTO customers (id, name, gender) VALUES (?, ?, ?)'' [''c1'', ''alice'', ''f''],
                RedisSet ''c1'' (JSON (json_of_Customer alice)) 0]\<rparr>)"
  "createCustomer set_fails alice_body empty_store =
     (\<lparr>status = 201, body = H ''message'' ''Customer created successfully''\<rparr>,
      \<lparr>rows = [alice], cache = Map.empty,
       calls = [DBExec ''INSERT INTO customers (id, name, gender) VALUES (?, ?, ?)'' [''c1'', ''alice'', ''f''],
                RedisSet ''c1'' (JSON (json_of_Customer alice)) 0]\<rparr>)"
  "createOrder order_up first_order_body no_orders =
     (\<lparr>status = 201, body = H ''message'' ''Order created successfully''\<rparr>,
      \<lparr>table = [item_of_Order first_order], objects = Map.empty,
       order_calls = [PutItem (item_of_Order first_order)]\<rparr>)"
  by (simp_all add: createProduct_inserted createCustomer_inserted createOrder_put bind_examples)

lemma saveToDB_product_duplicate:
  "DBExec_fails env = None \<Longrightarrow> \<exists>r \<in> set (rows s). Product.ID r = Product.ID p \<Longrightarrow>
   fst (saveToDB_product env p s) = Some (ErrDuplicateEntry (Product.ID p))"
  by (auto simp: product_defs)

lemma product_duplicate_insert:
  "(ShouldBindJSON_Product pb = Inr pr \<longrightarrow> (\<exists>r \<in> set (rows ps). Product.ID r = Product.ID pr) \<longrightarrow>
      createProduct penv pb ps =
        (\<lparr>status = 500, body = H ''error'' ''failed to save to DB''\<rparr>,
         ps\<lparr>calls := calls ps @ [DBExec ''INSERT INTO product (id, name, category) VALUES (?, ?, ?)''
                                  [Product.ID pr, Product.Name pr, Category pr]]\<rparr>) \<and>
      (DBExec_fails penv = None \<longrightarrow>
         fst (saveToDB_product penv pr ps) = Some (ErrDuplicateEntry (Product.ID pr))))"
  using createProduct_duplicate[of pb pr ps penv] saveToDB_product_duplicate[of penv ps pr]
  by blast

lemma saveToDB_customer_duplicate:
  "DBExec_fails env = None \<Longrightarrow> \<exists>r \<in> set (rows s). Customer.ID r = Customer.ID p \<Longrightarrow>
   fst (saveToDB_customer env p s) = Some (ErrDuplicateEntry (Customer.ID p))"
  by (auto simp: customer_defs)

lemma customer_duplicate_insert:
  "(ShouldBindJSON_Customer cb = Inr cr \<longrightarrow> (\<exists>r \<in> set (rows cs). Customer.ID r = Customer.ID cr) \<longrightarrow>
      createCustomer cenv cb cs =
        (\<lparr>status = 500, body = H ''error'' ''failed to save to DB''\<rparr>,
         cs\<lparr>calls := calls cs @ [DBExec ''INSERT INTO customers (id, name, gender) VALUES (?, ?, ?)''
                                  [Customer.ID cr, Customer.Name cr, Gender cr]]\<rparr>) \<and>
      (DBExec_fails cenv = None \<longrightarrow>
         fst (saveToDB_customer cenv cr cs) = Some (ErrDuplicateEntry (Customer.ID cr))))"
  using createCustomer_duplicate[of cb cr cs cenv] saveToDB_customer_duplicate[of cenv cs cr]
  by blast

lemma order_duplicate_put:
  "(ShouldBindJSON_Order ob = Inr order \<longrightarrow>
      (\<exists>it \<in> set (table os). it ''id'' = Some (AttributeValueMemberS (Order.ID order))) \<longrightarrow>
      (PutItem_fails oenv = None \<longrightarrow>
         createOrder oenv ob os =
           (\<lparr>status = 201, body = H ''message'' ''Order created successfully''\<rparr>,
            os\<lparr>order_calls := order_calls os @ [PutItem (item_of_Order order)],
               table := put_item (item_of_Order order) (table os)\<rparr>) \<and>
         find (\<lambda>it. it ''id'' = Some (AttributeValueMemberS (Order.ID order)))
           (put_item (item_of_Order order) (table os)) = Some (item_of_Order order) \<and>
         length (put_item (item_of_Order order) (table os)) = length (table os)) \<and>
      (PutItem_fails oenv = Some om \<longrightarrow>
         createOrder oenv ob os =
           (\<lparr>status = 500, body = H ''error'' ''failed to save order''\<rparr>,
            os\<lparr>order_calls := order_calls os @ [PutItem (item_of_Order order)]\<rparr>)))"
proof (intro impI conjI)
  assume bind: "ShouldBindJSON_Order ob = Inr order" and ok: "PutItem_fails oenv = None"
  show "createOrder oenv ob os =
           (\<lparr>status = 201, body = H ''message'' ''Order created successfully''\<rparr>,
            os\<lparr>order_calls := order_calls os @ [PutItem (item_of_Order order)],
               table := put_item (item_of_Order order) (table os)\<rparr>)"
    by (rule createOrder_put[OF bind ok])
next
  show "find (\<lambda>it. it ''id'' = Some (AttributeValueMemberS (Order.ID order)))
           (put_item (item_of_Order order) (table os)) = Some (item_of_Order order)"
    by (simp add: find_put_item item_of_Order_id)
next
  assume "\<exists>it \<in> set (table os). it ''id'' = Some (AttributeValueMemberS (Order.ID order))"
  then show "length (put_item (item_of_Order order) (table os)) = length (table os)"
    by (simp add: length_put_item item_of_Order_id)
next
  assume "ShouldBindJSON_Order ob = Inr order" and "PutItem_fails oenv = Some om"
  then show "createOrder oenv ob os =
           (\<lparr>status = 500, body = H ''error'' ''failed to save order''\<rparr>,
            os\<lparr>order_calls := order_calls os @ [PutItem (item_of_Order order)]\<rparr>)"
    by (rule createOrder_error)
qed

lemma getOrder_table: "table (snd (getOrder env q s)) = table s"
  by (simp add: order_defs split: option.splits)

lemma saveOrdersToS3_table: "table (snd (saveOrdersToS3 env s)) = table s"
  by (simp add: order_defs split: option.splits)

lemma createOrder_table:
  "table (snd (createOrder env b s)) =
     (case ShouldBindJSON_Order b of
        Inl e \<Rightarrow> table s
      | Inr other \<Rightarrow> (case PutItem_fails env of
                        None \<Rightarrow> put_item (item_of_Order other) (table s)
                      | Some m \<Rightarrow> table s))"
  by (simp add: order_defs item_of_Order_def split: sum.splits option.splits)

lemma createOrder_status_201:
  "status (fst (createOrder env b s)) = 201 \<longleftrightarrow>
     (\<exists>other. ShouldBindJSON_Order b = Inr other) \<and> PutItem_fails env = None"
  by (auto simp: order_defs split: sum.splits option.splits)

lemma orders_later_keeps_item:
  "orders_later order s t \<Longrightarrow>
   find (\<lambda>it. it ''id'' = Some (AttributeValueMemberS (Order.ID order))) (table s) = Some (item_of_Order order) \<Longrightarrow>
   find (\<lambda>it. it ''id'' = Some (AttributeValueMemberS (Order.ID order))) (table t) = Some (item_of_Order order)"
proof (induction rule: orders_later.induct)
  case now
  then show ?case by simp
next
  case (read t env q)
  then show ?case by (simp add: getOrder_table)
next
  case (export t env)
  then show ?case by (simp add: saveOrdersToS3_table)
next
  case (create t b env)
  then have kept: "find (\<lambda>it. it ''id'' = Some (AttributeValueMemberS (Order.ID order))) (table t)
                     = Some (item_of_Order order)"
    by simp
  show ?case
  proof (cases "ShouldBindJSON_Order b")
    case (Inl e)
    with kept show ?thesis by (simp add: createOrder_table)
  next
    case (Inr other)
    show ?thesis
    proof (cases "PutItem_fails env")
      case (Some m)
      with Inr kept show ?thesis by (simp add: createOrder_table)
    next
      case None
      with Inr have put: "table (snd (createOrder env b t)) = put_item (item_of_Order other) (table t)"
        by (simp add: createOrder_table)
      from None Inr have ok201: "status (fst (createOrder env b t)) = 201"
        by (simp add: createOrder_status_201)
      show ?thesis
      proof (cases "Order.ID other = Order.ID order")
        case True
        with create.hyps(2) Inr ok201 have "other = order" by blast
        then show ?thesis by (simp add: put find_put_item item_of_Order_id)
      next
        case False
        then have "item_of_Order other ''id'' \<noteq> Some (AttributeValueMemberS (Order.ID order))"
          by (simp add: item_of_Order_id)
        with kept show ?thesis by (simp add: put find_put_item_other)
      qed
    qed
  qed
qed

lemma order_read_later:
  assumes bind: "ShouldBindJSON_Order b = Inr order"
    and created: "status (fst (createOrder env b s)) = 201"
    and later: "orders_later order (snd (createOrder env b s)) t"
  shows "GetItem_fails env' = None \<Longrightarrow>
           fst (getOrder env' (Some (Order.ID order)) t) = \<lparr>status = 200, body = json_of_Order order\<rparr>"
    and "GetItem_fails env' = Some m \<Longrightarrow>
           fst (getOrder env' (Some (Order.ID order)) t) =
             \<lparr>status = 500, body = H ''error'' ''failed to fetch order''\<rparr>"
proof -
  from createOrder_201[OF created] have ok: "PutItem_fails env = None" .
  have "find (\<lambda>it. it ''id'' = Some (AttributeValueMemberS (Order.ID order)))
          (table (snd (createOrder env b s))) = Some (item_of_Order order)"
    by (simp add: createOrder_put[OF bind ok] find_put_item item_of_Order_id)
  from orders_later_keeps_item[OF later this]
  have item: "find (\<lambda>it. it ''id'' = Some (AttributeValueMemberS (DefaultQuery (Some (Order.ID order)) [])))
                (table t) = Some (item_of_Order order)"
    by (simp add: DefaultQuery_def)
  show "fst (getOrder env' (Some (Order.ID order)) t) = \<lparr>status = 200, body = json_of_Order order\<rparr>"
    if "GetItem_fails env' = None"
    using getOrder_found[OF that item] by (simp add: Order_of_item_of_Order)
  show "fst (getOrder env' (Some (Order.ID order)) t) =
          \<lparr>status = 500, body = H ''error'' ''failed to fetch order''\<rparr>"
    if "GetItem_fails env' = Some m"
    using that by (simp add: getOrder_error)
qed

lemma products_later_reachable:
  "products_later s t \<Longrightarrow> reachable_products s \<Longrightarrow> reachable_products t"
  by (induction rule: products_later.induct)
     (auto intro: reachable_products.create reachable_products.read)

lemma products_later_keeps_row:
  "products_later s t \<Longrightarrow> find (\<lambda>r. Product.ID r = k) (rows s) = Some p \<Longrightarrow>
   find (\<lambda>r. Product.ID r = k) (rows t) = Some p"
proof (induction rule: products_later.induct)
  case now
  then show ?case by simp
next
  case (create t env b)
  then have kept: "find (\<lambda>r. Product.ID r = k) (rows t) = Some p" by simp
  from createProduct_effect[of env b t]
  consider (same) "rows (snd (createProduct env b t)) = rows t"
    | (ins) r where "rows (snd (createProduct env b t)) = rows t @ [r]"
    by blast
  then show ?case
  proof cases
    case same
    with kept show ?thesis by simp
  next
    case ins
    with kept show ?thesis by (simp add: find_product_snoc)
  qed
next
  case (read t env q)
  with getProduct_effect[of env q t] show ?case by simp
qed

lemma product_read_later:
  assumes reach: "reachable_products s"
    and bind: "ShouldBindJSON_Product b = Inr p"
    and created: "status (fst (createProduct env b s)) = 201"
    and later: "products_later (snd (createProduct env b s)) t"
  shows "RedisGet_fails env' = None \<Longrightarrow> cache t (Product.ID p) \<noteq> None \<or> DBGet_fails env' = None \<Longrightarrow>
           fst (getProduct env' (Some (Product.ID p)) t) = \<lparr>status = 200, body = json_of_Product p\<rparr>"
    and "RedisGet_fails env' = Some m \<Longrightarrow>
           fst (getProduct env' (Some (Product.ID p)) t) =
             \<lparr>status = 500, body = H ''error'' ''failed to fetch from cache''\<rparr>"
    and "RedisGet_fails env' = None \<Longrightarrow> cache t (Product.ID p) = None \<Longrightarrow> DBGet_fails env' = Some m \<Longrightarrow>
           fst (getProduct env' (Some (Product.ID p)) t) =
             \<lparr>status = 500, body = H ''error'' ''failed to fetch from DB''\<rparr>"
proof -
  from createProduct_201[OF created bind]
  have ok: "DBExec_fails env = None" and fresh: "\<not> (\<exists>r \<in> set (rows s). Product.ID r = Product.ID p)"
    by simp_all
  have rows': "rows (snd (createProduct env b s)) = rows s @ [p]"
    by (simp add: createProduct_inserted[OF bind ok fresh])
  from fresh have "find (\<lambda>r. Product.ID r = Product.ID p) (rows s) = None"
    by (simp add: find_None_iff)
  then have "find (\<lambda>r. Product.ID r = Product.ID p) (rows (snd (createProduct env b s))) = Some p"
    by (simp add: rows' find_product_snoc)
  from products_later_keeps_row[OF later this]
  have row: "find (\<lambda>r. Product.ID r = Product.ID p) (rows t) = Some p" .
  have "reachable_products (snd (createProduct env b s))"
    using reach by (rule reachable_products.create)
  with later have "reachable_products t" by (rule products_later_reachable)
  then have coh: "coherent_products t" by (rule reachable_products_coherent)
  have q: "DefaultQuery (Some (Product.ID p)) [] = Product.ID p" by (simp add: DefaultQuery_def)
  show "fst (getProduct env' (Some (Product.ID p)) t) = \<lparr>status = 200, body = json_of_Product p\<rparr>"
    if get_up: "RedisGet_fails env' = None"
      and served: "cache t (Product.ID p) \<noteq> None \<or> DBGet_fails env' = None"
  proof (cases "cache t (Product.ID p)")
    case (Some v)
    with coh row have dec: "Unmarshal_Product v = Inr p"
      unfolding coherent_products_def by fastforce
    from Some have "cache t (DefaultQuery (Some (Product.ID p)) []) = Some v" by (simp add: q)
    from getProduct_cache_hit[OF get_up this dec] show ?thesis by simp
  next
    case None
    with served have db_up: "DBGet_fails env' = None" by simp
    from None have miss: "cache t (DefaultQuery (Some (Product.ID p)) []) = None" by (simp add: q)
    from row have "find (\<lambda>r. Product.ID r = DefaultQuery (Some (Product.ID p)) []) (rows t) = Some p"
      by (simp add: q)
    from getProduct_miss_db_found[OF get_up miss db_up this] show ?thesis by simp
  qed
  show "fst (getProduct env' (Some (Product.ID p)) t) =
          \<lparr>status = 500, body = H ''error'' ''failed to fetch from cache''\<rparr>"
    if "RedisGet_fails env' = Some m"
    using that by (simp add: getProduct_cache_error)
  show "fst (getProduct env' (Some (Product.ID p)) t) =
          \<lparr>status = 500, body = H ''error'' ''failed to fetch from DB''\<rparr>"
    if "RedisGet_fails env' = None" "cache t (Product.ID p) = None" "DBGet_fails env' = Some m"
    using that by (simp add: getProduct_miss_db_error q)
qed

lemma customers_later_reachable:
  "customers_later s t \<Longrightarrow> reachable_customers s \<Longrightarrow> reachable_customers t"
  by (induction rule: customers_later.induct)
     (auto intro: reachable_customers.create reachable_customers.read)

lemma customers_later_keeps_row:
  "customers_later s t \<Longrightarrow> find (\<lambda>r. Customer.ID r = k) (rows s) = Some p \<Longrightarrow>
   find (\<lambda>r. Customer.ID r = k) (rows t) = Some p"
proof (induction rule: customers_later.induct)
  case now
  then show ?case by simp
next
  case (create t env b)
  then have kept: "find (\<lambda>r. Customer.ID r = k) (rows t) = Some p" by simp
  from createCustomer_effect[of env b t]
  consider (same) "rows (snd (createCustomer env b t)) = rows t"
    | (ins) r where "rows (snd (createCustomer env b t)) = rows t @ [r]"
    by blast
  then show ?case
  proof cases
    case same
    with kept show ?thesis by simp
  next
    case ins
    with kept show ?thesis by (simp add: find_customer_snoc)
  qed
next
  case (read t env q)
  with getCustomer_effect[of env q t] show ?case by simp
qed

lemma customer_read_later:
  assumes reach: "reachable_customers s"
    and bind: "ShouldBindJSON_Customer b = Inr p"
    and created: "status (fst (createCustomer env b s)) = 201"
    and later: "customers_later (snd (createCustomer env b s)) t"
  shows "RedisGet_fails env' = None \<Longrightarrow> cache t (Customer.ID p) \<noteq> None \<or> DBGet_fails env' = None \<Longrightarrow>
           fst (getCustomer env' (Some (Customer.ID p)) t) = \<lparr>status = 200, body = json_of_Customer p\<rparr>"
    and "RedisGet_fails env' = Some m \<Longrightarrow>
           fst (getCustomer env' (Some (Customer.ID p)) t) =
             \<lparr>status = 500, body = H ''error'' ''failed to fetch from cache''\<rparr>"
    and "RedisGet_fails env' = None \<Longrightarrow> cache t (Customer.ID p) = None \<Longrightarrow> DBGet_fails env' = Some m \<Longrightarrow>
           fst (getCustomer env' (Some (Customer.ID p)) t) =
             \<lparr>status = 500, body = H ''error'' ''failed to fetch from DB''\<rparr>"
proof -
  from createCustomer_201[OF created bind]
  have ok: "DBExec_fails env = None" and fresh: "\<not> (\<exists>r \<in> set (rows s). Customer.ID r = Customer.ID p)"
    by simp_all
  have rows': "rows (snd (createCustomer env b s)) = rows s @ [p]"
    by (simp add: createCustomer_inserted[OF bind ok fresh])
  from fresh have "find (\<lambda>r. Customer.ID r = Customer.ID p) (rows s) = None"
    by (simp add: find_None_iff)
  then have "find (\<lambda>r. Customer.ID r = Customer.ID p) (rows (snd (createCustomer env b s))) = Some p"
    by (simp add: rows' find_customer_snoc)
  from customers_later_keeps_row[OF later this]
  have row: "find (\<lambda>r. Customer.ID r = Customer.ID p) (rows t) = Some p" .
  have "reachable_customers (snd (createCustomer env b s))"
    using reach by (rule reachable_customers.create)
  with later have "reachable_customers t" by (rule customers_later_reachable)
  then have coh: "coherent_customers t" by (rule reachable_customers_coherent)
  have q: "DefaultQuery (Some (Customer.ID p)) [] = Customer.ID p" by (simp add: DefaultQuery_def)
  show "fst (getCustomer env' (Some (Customer.ID p)) t) = \<lparr>status = 200, body = json_of_Customer p\<rparr>"
    if get_up: "RedisGet_fails env' = None"
      and served: "cache t (Customer.ID p) \<noteq> None \<or> DBGet_fails env' = None"
  proof (cases "cache t (Customer.ID p)")
    case (Some v)
    with coh row have dec: "Unmarshal_Customer v = Inr p"
      unfolding coherent_customers_def by fastforce
    from Some have "cache t (DefaultQuery (Some (Customer.ID p)) []) = Some v" by (simp add: q)
    from getCustomer_cache_hit[OF get_up this dec] show ?thesis by simp
  next
    case None
    with served have db_up: "DBGet_fails env' = None" by simp
    from None have miss: "cache t (DefaultQuery (Some (Customer.ID p)) []) = None" by (simp add: q)
    from row have "find (\<lambda>r. Customer.ID r = DefaultQuery (Some (Customer.ID p)) []) (rows t) = Some p"
      by (simp add: q)
    from getCustomer_miss_db_found[OF get_up miss db_up this] show ?thesis by simp
  qed
  show "fst (getCustomer env' (Some (Customer.ID p)) t) =
          \<lparr>status = 500, body = H ''error'' ''failed to fetch from cache''\<rparr>"
    if "RedisGet_fails env' = Some m"
    using that by (simp add: getCustomer_cache_error)
  show "fst (getCustomer env' (Some (Customer.ID p)) t) =
          \<lparr>status = 500, body = H ''error'' ''failed to fetch from DB''\<rparr>"
    if "RedisGet_fails env' = None" "cache t (Customer.ID p) = None" "DBGet_fails env' = Some m"
    using that by (simp add: getCustomer_miss_db_error q)
qed

lemma product_read_later_all:
  "(reachable_products ps \<longrightarrow> ShouldBindJSON_Product pb = Inr pr \<longrightarrow>
      status (fst (createProduct penv pb ps)) = 201 \<longrightarrow>
      products_later (snd (createProduct penv pb ps)) pt \<longrightarrow>
      (RedisGet_fails penv' = None \<longrightarrow>
       (cache pt (Product.ID pr) \<noteq> None \<or> DBGet_fails penv' = None) \<longrightarrow>
         fst (getProduct penv' (Some (Product.ID pr)) pt) =
           \<lparr>status = 200, body = json_of_Product pr\<rparr>) \<and>
      (RedisGet_fails penv' = Some pm \<longrightarrow>
         fst (getProduct penv' (Some (Product.ID pr)) pt) =
           \<lparr>status = 500, body = H ''error'' ''failed to fetch from cache''\<rparr>) \<and>
      (RedisGet_fails penv' = None \<longrightarrow> cache pt (Product.ID pr) = None \<longrightarrow>
       DBGet_fails penv' = Some pm \<longrightarrow>
         fst (getProduct penv' (Some (Product.ID pr)) pt) =
           \<lparr>status = 500, body = H ''error'' ''failed to fetch from DB''\<rparr>))"
  using product_read_later[of ps pb pr penv pt]
  by blast

lemma customer_read_later_all:
  "(reachable_customers cs \<longrightarrow> ShouldBindJSON_Customer cb = Inr cr \<longrightarrow>
      status (fst (createCustomer cenv cb cs)) = 201 \<longrightarrow>
      customers_later (snd (createCustomer cenv cb cs)) ct \<longrightarrow>
      (RedisGet_fails cenv' = None \<longrightarrow>
       (cache ct (Customer.ID cr) \<noteq> None \<or> DBGet_fails cenv' = None) \<longrightarrow>
         fst (getCustomer cenv' (Some (Customer.ID cr)) ct) =
           \<lparr>status = 200, body = json_of_Customer cr\<rparr>) \<and>
      (RedisGet_fails cenv' = Some cm \<longrightarrow>
         fst (getCustomer cenv' (Some (Customer.ID cr)) ct) =
           \<lparr>status = 500, body = H ''error'' ''failed to fetch from cache''\<rparr>) \<and>
      (RedisGet_fails cenv' = None \<longrightarrow> cache ct (Customer.ID cr) = None \<longrightarrow>
       DBGet_fails cenv' = Some cm \<longrightarrow>
         fst (getCustomer cenv' (Some (Customer.ID cr)) ct) =
           \<lparr>status = 500, body = H ''error'' ''failed to fetch from DB''\<rparr>))"
  using customer_read_later[of cs cb cr cenv ct]
  by blast

lemma order_read_later_all:
  "(ShouldBindJSON_Order ob = Inr order \<longrightarrow> status (fst (createOrder oenv ob os)) = 201 \<longrightarrow>
      orders_later order (snd (createOrder oenv ob os)) ot \<longrightarrow>
      (GetItem_fails oenv' = None \<longrightarrow>
         fst (getOrder oenv' (Some (Order.ID order)) ot) =
           \<lparr>status = 200, body = json_of_Order order\<rparr>) \<and>
      (GetItem_fails oenv' = Some om \<longrightarrow>
         fst (getOrder oenv' (Some (Order.ID order)) ot) =
           \<lparr>status = 500, body = H ''error'' ''failed to fetch order''\<rparr>))"
  using order_read_later[of ob order oenv os ot]
  by blast

lemma bind_other_order:
  "ShouldBindJSON_Order other_order_body = Inr \<lparr>Order.ID = ''o2'', CustomerID = ''c1'', ProductID = ''p2''\<rparr>"
  by (simp add: ShouldBindJSON_Order_def unmarshal_struct_def field_of_def)

section \<open>Create requests with a body that does not decode\<close>

text \<open>
  C4. A create request whose body fails to decode into the record type is answered with
  400 before any store is reached: the state of the service after the request is the state
  before it, so the primary store and the cache are unchanged and the log of remote calls
  has no new entry. This holds for the order, the product and the customer service, whatever
  the environment would answer. A body that is not JSON text is such a body.
\<close>

theorem create_undecodable_body_400_no_store_access:
  "(ShouldBindJSON_Order b1 = Inl e1 \<longrightarrow>
      status (fst (createOrder oenv b1 os)) = 400 \<and> snd (createOrder oenv b1 os) = os) \<and>
   (ShouldBindJSON_Product b2 = Inl e2 \<longrightarrow>
      status (fst (createProduct penv b2 ps)) = 400 \<and> snd (createProduct penv b2 ps) = ps) \<and>
   (ShouldBindJSON_Customer b3 = Inl e3 \<longrightarrow>
      status (fst (createCustomer cenv b3 cs)) = 400 \<and> snd (createCustomer cenv b3 cs) = cs) \<and>
   ShouldBindJSON_Order (NotJSON m) = Inl (Err m) \<and>
   ShouldBindJSON_Product (NotJSON m) = Inl (Err m) \<and>
   ShouldBindJSON_Customer (NotJSON m) = Inl (Err m)"
  by (simp add: createOrder_def createProduct_def createCustomer_def c_JSON_def
        StatusBadRequest_def bind_NotJSON)

theorem create_undecodable_body_witness:
  "ShouldBindJSON_Order (NotJSON ''unexpected EOF'') = Inl (Err ''unexpected EOF'') \<and>
   status (fst (createOrder order_up
                  (NotJSON ''unexpected EOF'') no_orders)) = 400 \<and>
   ShouldBindJSON_Product (JSON (JArray [])) = Inl (Err ''json: cannot unmarshal array into Go value of type main.Product'') \<and>
   status (fst (createProduct up
                  (JSON (JArray [])) empty_store)) = 400 \<and>
   ShouldBindJSON_Customer (JSON (JObject [(''ID'', JNumber ''7'')])) =
     Inl (Err ''json: cannot unmarshal number into Go struct field Customer.id of type string'') \<and>
   snd (createCustomer up
          (JSON (JObject [(''ID'', JNumber ''7'')])) empty_store)
     = empty_store"
proof -
  have o: "ShouldBindJSON_Order (NotJSON ''unexpected EOF'') = Inl (Err ''unexpected EOF'')"
    by (simp add: bind_NotJSON)
  have p: "ShouldBindJSON_Product (JSON (JArray [])) =
             Inl (Err ''json: cannot unmarshal array into Go value of type main.Product'')"
    by (simp add: ShouldBindJSON_Product_def Unmarshal_Product_def unmarshal_struct_def)
  have c: "ShouldBindJSON_Customer (JSON (JObject [(''ID'', JNumber ''7'')])) =
             Inl (Err ''json: cannot unmarshal number into Go struct field Customer.id of type string'')"
    by (simp add: ShouldBindJSON_Customer_def Unmarshal_Customer_def unmarshal_struct_def
          field_of_def lower_def)
  show ?thesis
    using o p c
      create_undecodable_body_400_no_store_access
        [of "NotJSON ''unexpected EOF''" "Err ''unexpected EOF''"
            order_up
            no_orders
            "JSON (JArray [])" "Err ''json: cannot unmarshal array into Go value of type main.Product''"
            up
            empty_store
            "JSON (JObject [(''ID'', JNumber ''7'')])"
            "Err ''json: cannot unmarshal number into Go struct field Customer.id of type string''"
            up
            empty_store]
    by simp
qed

section \<open>Decoding of stored order items\<close>

text \<open>
  C10. The order service reads an item leniently. In the single read and in the scan alike,
  the record built from an item has, for each of \<open>id\<close>, \<open>customerid\<close> and \<open>productid\<close>,
  the text of the attribute when it is present with string type and the empty string when it
  is missing or of another type. A malformed item therefore never fails a request: whenever
  \<open>GetItem\<close> returns an item the read answers 200 with the record so built, the scan turns
  every item of its response into a record, and whenever \<open>Scan\<close> and \<open>PutObject\<close> go
  through the export answers 200, whatever the items are.
\<close>

theorem order_items_decoded_leniently:
  "(GetItem_fails env = None \<longrightarrow>
      find (\<lambda>it. it ''id'' = Some (AttributeValueMemberS (DefaultQuery q []))) (table s) = Some Item \<longrightarrow>
      fst (getOrder env q s) = \<lparr>status = 200, body = json_of_Order (Order_of_item Item)\<rparr>) \<and>
   (Scan_fails env = None \<longrightarrow>
      fst (getAllOrdersFromDynamoDB env s) =
        Inr (if scan_page env (table s) = [] then None
             else Some (map Order_of_item (scan_page env (table s))))) \<and>
   (Scan_fails env = None \<longrightarrow> PutObject_fails env = None \<longrightarrow>
      status (fst (saveOrdersToS3 env s)) = 200) \<and>
   Order.ID (Order_of_item it) = string_or_empty (it ''id'') \<and>
   CustomerID (Order_of_item it) = string_or_empty (it ''customerid'') \<and>
   ProductID (Order_of_item it) = string_or_empty (it ''productid'') \<and>
   string_or_empty None = [] \<and>
   ((\<forall>v. a \<noteq> Some (AttributeValueMemberS v)) \<longrightarrow> string_or_empty a = []) \<and>
   string_or_empty (Some (AttributeValueMemberS v)) = v"
  using getOrder_item[of env q s Item] getAllOrders_ok[of env s] saveOrdersToS3_ok[of env s]
    string_or_empty_cases(3)[of a]
  by (simp add: Order_of_item_def string_or_empty_cases)

theorem order_items_decoded_leniently_witness:
  "find (\<lambda>it. it ''id'' = Some (AttributeValueMemberS (DefaultQuery (Some ''o1'') [])))
     [[''id'' \<mapsto> AttributeValueMemberS ''o1'', ''productid'' \<mapsto> AttributeValueMemberN ''5'']]
     = Some [''id'' \<mapsto> AttributeValueMemberS ''o1'', ''productid'' \<mapsto> AttributeValueMemberN ''5''] \<and>
   fst (getOrder order_up
          (Some ''o1'')
          \<lparr>table = [[''id'' \<mapsto> AttributeValueMemberS ''o1'', ''productid'' \<mapsto> AttributeValueMemberN ''5'']],
             objects = Map.empty, order_calls = []\<rparr>)
     = \<lparr>status = 200,
        body = JObject [(''id'', JString ''o1''), (''customerid'', JString []), (''productid'', JString [])]\<rparr> \<and>
   status (fst (saveOrdersToS3 order_up
          \<lparr>table = [[''id'' \<mapsto> AttributeValueMemberS ''o1'', ''productid'' \<mapsto> AttributeValueMemberN ''5'']],
             objects = Map.empty, order_calls = []\<rparr>)) = 200 \<and>
   string_or_empty (Some (AttributeValueMemberN ''5'')) = []"
  using order_items_decoded_leniently
    [of order_up
        "Some ''o1''"
        "\<lparr>table = [[''id'' \<mapsto> AttributeValueMemberS ''o1'', ''productid'' \<mapsto> AttributeValueMemberN ''5'']],
           objects = Map.empty, order_calls = []\<rparr>"
        "[''id'' \<mapsto> AttributeValueMemberS ''o1'', ''productid'' \<mapsto> AttributeValueMemberN ''5'']"
        "[''id'' \<mapsto> AttributeValueMemberS ''o1'', ''productid'' \<mapsto> AttributeValueMemberN ''5'']"
        "Some (AttributeValueMemberN ''5'')"]
  by (simp add: DefaultQuery_def json_of_Order_def Order_of_item_def string_or_empty_def)

section \<open>The read path of the product and customer services\<close>

text \<open>
  C2. In the product and the customer service the outcome of the cache lookup decides the
  read. With \<open>k\<close> the requested id: if Redis returns a value that decodes to a record, the
  handler answers 200 with that record and its only remote call is the Redis \<open>GET\<close>, so
  the primary store is not touched and an unavailable database does not matter; if Redis
  reports that there is no entry, the next remote call is the \<open>SELECT\<close> on the primary store;
  if the lookup fails in any other way (Redis returns an error, or the value does not decode),
  the handler answers 500 and again its only remote call is the Redis \<open>GET\<close>.
\<close>

theorem cache_lookup_decides_read:
  "((RedisGet_fails penv = None \<longrightarrow> cache ps (DefaultQuery pq []) = Some pv \<longrightarrow>
      Unmarshal_Product pv = Inr pp \<longrightarrow>
      getProduct penv pq ps =
        (\<lparr>status = 200, body = json_of_Product pp\<rparr>,
         ps\<lparr>calls := calls ps @ [RedisGet (DefaultQuery pq [])]\<rparr>)) \<and>
   (RedisGet_fails penv = None \<longrightarrow> cache ps (DefaultQuery pq []) = None \<longrightarrow>
      take (length (calls ps) + 2) (calls (snd (getProduct penv pq ps))) =
        calls ps @ [RedisGet (DefaultQuery pq []),
                   DBGet ''SELECT id, name, category FROM product WHERE id = ?'' [DefaultQuery pq []]]) \<and>
   (RedisGet_fails penv = Some pm \<or>
    (RedisGet_fails penv = None \<and> cache ps (DefaultQuery pq []) = Some pv \<and> Unmarshal_Product pv = Inl pe) \<longrightarrow>
      getProduct penv pq ps =
        (\<lparr>status = 500, body = H ''error'' ''failed to fetch from cache''\<rparr>,
         ps\<lparr>calls := calls ps @ [RedisGet (DefaultQuery pq [])]\<rparr>))) \<and>
   ((RedisGet_fails cenv = None \<longrightarrow> cache cs (DefaultQuery cq []) = Some cv \<longrightarrow>
      Unmarshal_Customer cv = Inr cp \<longrightarrow>
      getCustomer cenv cq cs =
        (\<lparr>status = 200, body = json_of_Customer cp\<rparr>,
         cs\<lparr>calls := calls cs @ [RedisGet (DefaultQuery cq [])]\<rparr>)) \<and>
   (RedisGet_fails cenv = None \<longrightarrow> cache cs (DefaultQuery cq []) = None \<longrightarrow>
      take (length (calls cs) + 2) (calls (snd (getCustomer cenv cq cs))) =
        calls cs @ [RedisGet (DefaultQuery cq []),
                   DBGet ''SELECT id, name, gender FROM customers WHERE id = ?'' [DefaultQuery cq []]]) \<and>
   (RedisGet_fails cenv = Some cm \<or>
    (RedisGet_fails cenv = None \<and> cache cs (DefaultQuery cq []) = Some cv \<and> Unmarshal_Customer cv = Inl ce) \<longrightarrow>
      getCustomer cenv cq cs =
        (\<lparr>status = 500, body = H ''error'' ''failed to fetch from cache''\<rparr>,
         cs\<lparr>calls := calls cs @ [RedisGet (DefaultQuery cq [])]\<rparr>)))"
  (is "?product \<and> ?customer")
proof
  show ?product by (rule product_lookup_cases)
  show ?customer by (rule customer_lookup_cases)
qed

theorem cache_lookup_decides_read_witness:
  "getProduct db_fails (Some ''p1'')
     \<lparr>rows = [], cache = [''p1'' \<mapsto> JSON (json_of_Product widget)], calls = []\<rparr>
   = (\<lparr>status = 200, body = json_of_Product widget\<rparr>,
      \<lparr>rows = [], cache = [''p1'' \<mapsto> JSON (json_of_Product widget)], calls = [RedisGet ''p1'']\<rparr>) \<and>
   take 2 (calls (snd (getProduct up (Some ''p1'') \<lparr>rows = [widget], cache = Map.empty, calls = []\<rparr>)))
   = [RedisGet ''p1'', DBGet ''SELECT id, name, category FROM product WHERE id = ?'' [''p1'']] \<and>
   getProduct get_fails (Some ''p1'')
     \<lparr>rows = [widget], cache = Map.empty, calls = []\<rparr>
   = (\<lparr>status = 500, body = H ''error'' ''failed to fetch from cache''\<rparr>,
      \<lparr>rows = [widget], cache = Map.empty, calls = [RedisGet ''p1'']\<rparr>) \<and>
   getCustomer db_fails (Some ''c1'')
     \<lparr>rows = [], cache = [''c1'' \<mapsto> JSON (json_of_Customer alice)], calls = []\<rparr>
   = (\<lparr>status = 200, body = json_of_Customer alice\<rparr>,
      \<lparr>rows = [], cache = [''c1'' \<mapsto> JSON (json_of_Customer alice)], calls = [RedisGet ''c1'']\<rparr>) \<and>
   take 2 (calls (snd (getCustomer up None \<lparr>rows = [alice], cache = Map.empty, calls = []\<rparr>)))
   = [RedisGet [], DBGet ''SELECT id, name, gender FROM customers WHERE id = ?'' [[]]] \<and>
   getCustomer up (Some ''c1'') \<lparr>rows = [alice], cache = [''c1'' \<mapsto> NotJSON ''unexpected end of JSON input''], calls = []\<rparr>
   = (\<lparr>status = 500, body = H ''error'' ''failed to fetch from cache''\<rparr>,
      \<lparr>rows = [alice], cache = [''c1'' \<mapsto> NotJSON ''unexpected end of JSON input''], calls = [RedisGet ''c1'']\<rparr>)"
  using
    cache_lookup_decides_read
      [where penv = db_fails and pq = "Some ''p1''"
         and ps = "\<lparr>rows = [], cache = [''p1'' \<mapsto> JSON (json_of_Product widget)], calls = []\<rparr>"
         and pv = "JSON (json_of_Product widget)" and pp = widget
         and cenv = db_fails and cq = "Some ''c1''"
         and cs = "\<lparr>rows = [], cache = [''c1'' \<mapsto> JSON (json_of_Customer alice)], calls = []\<rparr>"
         and cv = "JSON (json_of_Customer alice)" and cp = alice]
    cache_lookup_decides_read
      [where penv = up and pq = "Some ''p1''"
         and ps = "\<lparr>rows = [widget], cache = Map.empty, calls = []\<rparr>"
         and cenv = up and cq = None
         and cs = "\<lparr>rows = [alice], cache = Map.empty, calls = []\<rparr>"]
    cache_lookup_decides_read
      [where penv = get_fails and pq = "Some ''p1''"
         and ps = "\<lparr>rows = [widget], cache = Map.empty, calls = []\<rparr>" and pm = "''i/o timeout''"
         and cenv = up and cq = "Some ''c1''"
         and cs = "\<lparr>rows = [alice], cache = [''c1'' \<mapsto> NotJSON ''unexpected end of JSON input''], calls = []\<rparr>"
         and cv = "NotJSON ''unexpected end of JSON input''" and ce = "Err ''unexpected end of JSON input''"]
  by (simp add: DefaultQuery_def Unmarshal_Marshal_Product Unmarshal_Marshal_Customer
        Unmarshal_NotJSON numeral_2_eq_2)

section \<open>Reading an id that is nowhere\<close>

text \<open>
  C3. For an id that is in neither the cache nor the primary store, the order service
  answers 404 when DynamoDB reports no item (and 500 when the call fails, so it tells the two
  apart), while the product and the customer service answer 500, with the same body as for a
  failed database call; these two services never answer 404 at all.
\<close>

theorem absent_id_404_order_500_others:
  "((GetItem_fails oenv = None \<longrightarrow>
      (\<forall>it \<in> set (table os). it ''id'' \<noteq> Some (AttributeValueMemberS (DefaultQuery oq []))) \<longrightarrow>
      fst (getOrder oenv oq os) = \<lparr>status = 404, body = H ''error'' ''order not found''\<rparr>) \<and>
   (GetItem_fails oenv = Some om \<longrightarrow>
      fst (getOrder oenv oq os) = \<lparr>status = 500, body = H ''error'' ''failed to fetch order''\<rparr>)) \<and>
   ((cache ps (DefaultQuery pq []) = None \<longrightarrow> (\<forall>r \<in> set (rows ps). Product.ID r \<noteq> DefaultQuery pq []) \<longrightarrow>
      status (fst (getProduct penv pq ps)) = 500 \<and>
      (RedisGet_fails penv = None \<longrightarrow>
         fst (getProduct penv pq ps) = \<lparr>status = 500, body = H ''error'' ''failed to fetch from DB''\<rparr>)) \<and>
   (RedisGet_fails penv = None \<longrightarrow> cache ps (DefaultQuery pq []) = None \<longrightarrow> DBGet_fails penv = Some pm \<longrightarrow>
      fst (getProduct penv pq ps) = \<lparr>status = 500, body = H ''error'' ''failed to fetch from DB''\<rparr>) \<and>
   status (fst (getProduct penv pq ps)) \<noteq> 404) \<and>
   ((cache cs (DefaultQuery cq []) = None \<longrightarrow> (\<forall>r \<in> set (rows cs). Customer.ID r \<noteq> DefaultQuery cq []) \<longrightarrow>
      status (fst (getCustomer cenv cq cs)) = 500 \<and>
      (RedisGet_fails cenv = None \<longrightarrow>
         fst (getCustomer cenv cq cs) = \<lparr>status = 500, body = H ''error'' ''failed to fetch from DB''\<rparr>)) \<and>
   (RedisGet_fails cenv = None \<longrightarrow> cache cs (DefaultQuery cq []) = None \<longrightarrow> DBGet_fails cenv = Some cm \<longrightarrow>
      fst (getCustomer cenv cq cs) = \<lparr>status = 500, body = H ''error'' ''failed to fetch from DB''\<rparr>) \<and>
   status (fst (getCustomer cenv cq cs)) \<noteq> 404)"
  (is "?order \<and> ?product \<and> ?customer")
proof -
  have orders: ?order by (rule order_absent_id_404)
  have products: ?product by (rule product_absent_id_500)
  have customers: ?customer by (rule customer_absent_id_500)
  show ?thesis by (rule conjI[OF orders conjI[OF products customers]])
qed

theorem absent_id_404_order_500_others_witness:
  "fst (getOrder order_up (Some ''o9'') no_orders)
     = \<lparr>status = 404, body = H ''error'' ''order not found''\<rparr> \<and>
   fst (getOrder get_item_fails (Some ''o9'')
          no_orders)
     = \<lparr>status = 500, body = H ''error'' ''failed to fetch order''\<rparr> \<and>
   fst (getProduct up (Some ''p9'') \<lparr>rows = [widget], cache = Map.empty, calls = []\<rparr>)
     = \<lparr>status = 500, body = H ''error'' ''failed to fetch from DB''\<rparr> \<and>
   fst (getProduct db_fails (Some ''p9'')
          \<lparr>rows = [widget], cache = Map.empty, calls = []\<rparr>)
     = \<lparr>status = 500, body = H ''error'' ''failed to fetch from DB''\<rparr> \<and>
   fst (getCustomer up (Some ''c9'') \<lparr>rows = [alice], cache = Map.empty, calls = []\<rparr>)
     = \<lparr>status = 500, body = H ''error'' ''failed to fetch from DB''\<rparr> \<and>
   fst (getCustomer db_fails (Some ''c9'')
          \<lparr>rows = [alice], cache = Map.empty, calls = []\<rparr>)
     = \<lparr>status = 500, body = H ''error'' ''failed to fetch from DB''\<rparr>"
  using
    absent_id_404_order_500_others
      [where oenv = order_up and oq = "Some ''o9''"
         and os = no_orders
         and penv = up and pq = "Some ''p9''"
         and ps = "\<lparr>rows = [widget], cache = Map.empty, calls = []\<rparr>"
         and cenv = up and cq = "Some ''c9''"
         and cs = "\<lparr>rows = [alice], cache = Map.empty, calls = []\<rparr>"]
    absent_id_404_order_500_others
      [where oenv = get_item_fails and oq = "Some ''o9''"
         and om = "''request timeout''"
         and os = no_orders
         and penv = db_fails and pq = "Some ''p9''"
         and pm = "''connection refused''"
         and ps = "\<lparr>rows = [widget], cache = Map.empty, calls = []\<rparr>"
         and cenv = db_fails and cq = "Some ''c9''"
         and cm = "''connection refused''"
         and cs = "\<lparr>rows = [alice], cache = Map.empty, calls = []\<rparr>"]
  by (simp add: DefaultQuery_def)

section \<open>A failing cache write\<close>

text \<open>
  C7. In the product and the customer service, when the primary-store operation of a request
  has succeeded (a read that found the row after a cache miss, or a create whose insert went
  through), a failure of the following cache write is swallowed: the read still answers 200
  with the record, the create still answers 201, and the cache is left as it was. More
  generally the response of either handler never depends on what Redis answers to the \<open>SET\<close>.
\<close>

theorem cache_write_failure_swallowed:
  "((RedisGet_fails penv = None \<longrightarrow> cache ps (DefaultQuery pq []) = None \<longrightarrow> DBGet_fails penv = None \<longrightarrow>
      find (\<lambda>r. Product.ID r = DefaultQuery pq []) (rows ps) = Some pp \<longrightarrow> RedisSet_fails penv = Some pm \<longrightarrow>
      fst (getProduct penv pq ps) = \<lparr>status = 200, body = json_of_Product pp\<rparr> \<and>
      cache (snd (getProduct penv pq ps)) = cache ps) \<and>
   (ShouldBindJSON_Product pb = Inr pr \<longrightarrow> DBExec_fails penv = None \<longrightarrow>
      \<not> (\<exists>r \<in> set (rows ps). Product.ID r = Product.ID pr) \<longrightarrow> RedisSet_fails penv = Some pm \<longrightarrow>
      fst (createProduct penv pb ps) = \<lparr>status = 201, body = H ''message'' ''Product created successfully''\<rparr> \<and>
      rows (snd (createProduct penv pb ps)) = rows ps @ [pr] \<and>
      cache (snd (createProduct penv pb ps)) = cache ps) \<and>
   fst (getProduct (penv\<lparr>RedisSet_fails := px\<rparr>) pq ps) = fst (getProduct penv pq ps) \<and>
   fst (createProduct (penv\<lparr>RedisSet_fails := px\<rparr>) pb ps) = fst (createProduct penv pb ps)) \<and>
   ((RedisGet_fails cenv = None \<longrightarrow> cache cs (DefaultQuery cq []) = None \<longrightarrow> DBGet_fails cenv = None \<longrightarrow>
      find (\<lambda>r. Customer.ID r = DefaultQuery cq []) (rows cs) = Some cp \<longrightarrow> RedisSet_fails cenv = Some cm \<longrightarrow>
      fst (getCustomer cenv cq cs) = \<lparr>status = 200, body = json_of_Customer cp\<rparr> \<and>
      cache (snd (getCustomer cenv cq cs)) = cache cs) \<and>
   (ShouldBindJSON_Customer cb = Inr cr \<longrightarrow> DBExec_fails cenv = None \<longrightarrow>
      \<not> (\<exists>r \<in> set (rows cs). Customer.ID r = Customer.ID cr) \<longrightarrow> RedisSet_fails cenv = Some cm \<longrightarrow>
      fst (createCustomer cenv cb cs) = \<lparr>status = 201, body = H ''message'' ''Customer created successfully''\<rparr> \<and>
      rows (snd (createCustomer cenv cb cs)) = rows cs @ [cr] \<and>
      cache (snd (createCustomer cenv cb cs)) = cache cs) \<and>
   fst (getCustomer (cenv\<lparr>RedisSet_fails := cx\<rparr>) cq cs) = fst (getCustomer cenv cq cs) \<and>
   fst (createCustomer (cenv\<lparr>RedisSet_fails := cx\<rparr>) cb cs) = fst (createCustomer cenv cb cs))"
  (is "?product \<and> ?customer")
proof
  show ?product by (rule product_set_failure)
  show ?customer by (rule customer_set_failure)
qed

theorem cache_write_failure_swallowed_witness:
  "fst (getProduct set_fails (Some ''p1'')
          \<lparr>rows = [widget], cache = Map.empty, calls = []\<rparr>)
     = \<lparr>status = 200, body = json_of_Product widget\<rparr> \<and>
   fst (createProduct set_fails (JSON (json_of_Product widget))
          empty_store)
     = \<lparr>status = 201, body = H ''message'' ''Product created successfully''\<rparr> \<and>
   fst (getCustomer set_fails (Some ''c1'')
          \<lparr>rows = [alice], cache = Map.empty, calls = []\<rparr>)
     = \<lparr>status = 200, body = json_of_Customer alice\<rparr> \<and>
   fst (createCustomer set_fails (JSON (json_of_Customer alice))
          empty_store)
     = \<lparr>status = 201, body = H ''message'' ''Customer created successfully''\<rparr>"
  using
    cache_write_failure_swallowed
      [where penv = set_fails and pq = "Some ''p1''"
         and ps = "\<lparr>rows = [widget], cache = Map.empty, calls = []\<rparr>" and pp = widget
         and pm = "''READONLY''"
         and cenv = set_fails and cq = "Some ''c1''"
         and cs = "\<lparr>rows = [alice], cache = Map.empty, calls = []\<rparr>" and cp = alice
         and cm = "''READONLY''"]
    cache_write_failure_swallowed
      [where penv = set_fails
         and ps = empty_store
         and pb = "JSON (json_of_Product widget)" and pr = widget and pm = "''READONLY''"
         and cenv = set_fails
         and cs = empty_store
         and cb = "JSON (json_of_Customer alice)" and cr = alice and cm = "''READONLY''"]
  by (simp add: DefaultQuery_def ShouldBindJSON_json_of)

section \<open>Coherence of the cache with the primary store\<close>

text \<open>
  C9. In every state that the product service (and likewise the customer service) reaches
  from empty stores by any sequence of create and read requests, under any answers of the
  environment, every cache entry under a key \<open>k\<close> decodes to a record, that record has id
  \<open>k\<close>, and it is the row that the primary store holds under \<open>k\<close>; the ids of the rows are
  pairwise distinct, so there is one such row. The cache is written only after a successful
  insert or a successful read of the row, and no request changes or removes a row.
\<close>

theorem cache_coherent_in_reachable_states:
  "(reachable_products ps \<longrightarrow>
      distinct (map Product.ID (rows ps)) \<and>
      (cache ps pk = Some pv \<longrightarrow>
         (\<exists>r. Unmarshal_Product pv = Inr r \<and> Product.ID r = pk \<and>
              find (\<lambda>r. Product.ID r = pk) (rows ps) = Some r))) \<and>
   (reachable_customers cs \<longrightarrow>
      distinct (map Customer.ID (rows cs)) \<and>
      (cache cs ck = Some cv \<longrightarrow>
         (\<exists>r. Unmarshal_Customer cv = Inr r \<and> Customer.ID r = ck \<and>
              find (\<lambda>r. Customer.ID r = ck) (rows cs) = Some r)))"
  (is "?product \<and> ?customer")
proof
  show ?product by (rule product_cache_coherent)
  show ?customer by (rule customer_cache_coherent)
qed

theorem cache_coherent_in_reachable_states_witness:
  "reachable_products (snd (getProduct up (Some ''p1'')
     (snd (createProduct set_fails widget_body empty_store)))) \<and>
   cache (snd (getProduct up (Some ''p1'')
     (snd (createProduct set_fails widget_body empty_store)))) ''p1''
     = Some (JSON (json_of_Product widget)) \<and>
   Unmarshal_Product (JSON (json_of_Product widget)) = Inr widget \<and>
   find (\<lambda>r. Product.ID r = ''p1'') (rows (snd (getProduct up (Some ''p1'')
     (snd (createProduct set_fails widget_body empty_store)))))
     = Some widget \<and>
   reachable_customers (snd (createCustomer up alice_body empty_store)) \<and>
   cache (snd (createCustomer up alice_body empty_store)) ''c1'' = Some (JSON (json_of_Customer alice)) \<and>
   Unmarshal_Customer (JSON (json_of_Customer alice)) = Inr alice \<and>
   find (\<lambda>r. Customer.ID r = ''c1'') (rows (snd (createCustomer up alice_body empty_store))) = Some alice"
proof -
  have rp: "reachable_products (snd (getProduct up (Some ''p1'')
     (snd (createProduct set_fails widget_body empty_store))))"
    by (intro reachable_products.read reachable_products.create reachable_products.empty)
  have rc: "reachable_customers (snd (createCustomer up alice_body empty_store))"
    by (intro reachable_customers.create reachable_customers.empty)
  have cp: "cache (snd (getProduct up (Some ''p1'')
     (snd (createProduct set_fails widget_body empty_store)))) ''p1''
     = Some (JSON (json_of_Product widget))"
    by (simp add: created_examples getProduct_miss_db_found DefaultQuery_def)
  have cc: "cache (snd (createCustomer up alice_body empty_store)) ''c1'' = Some (JSON (json_of_Customer alice))"
    by (simp add: created_examples)
  from cache_coherent_in_reachable_states
      [where ps = "snd (getProduct up (Some ''p1'')
             (snd (createProduct set_fails widget_body empty_store)))"
         and pk = "''p1''" and pv = "JSON (json_of_Product widget)"
         and cs = "snd (createCustomer up alice_body empty_store)"
         and ck = "''c1''" and cv = "JSON (json_of_Customer alice)"]
    rp rc cp cc
  show ?thesis
    by (auto simp: Unmarshal_Marshal_Product Unmarshal_Marshal_Customer)
qed

section \<open>Reading back what was created\<close>

text \<open>
  C1, as amended. Take a create request whose body decodes to a record and that is answered
  201 (the primary-store write went through), in any state of the order service, or in any
  state that the product or customer service reaches from empty stores. Let any further
  requests follow, none of them a conflicting write: for orders reads, exports, failed
  creates, creates under other ids and creates of the same record again; for products and
  customers any creates and reads, since a second insert under the id fails. A read of the
  same id then answers 200 with exactly the created record, provided the store calls that
  the read makes go through: \<open>GetItem\<close> for orders; for products and customers the Redis
  \<open>GET\<close> and, when the cache has no entry for the id, the \<open>SELECT\<close>. When one of these calls
  fails, the read answers 500 instead.

  As stated, without the proviso on the read, the claim fails: after a successful create of
  a product, a read during which Redis is unreachable answers 500.
\<close>

theorem read_after_create_returns_record:
  "(ShouldBindJSON_Order ob = Inr order \<longrightarrow> status (fst (createOrder oenv ob os)) = 201 \<longrightarrow>
      orders_later order (snd (createOrder oenv ob os)) ot \<longrightarrow>
      (GetItem_fails oenv' = None \<longrightarrow>
         fst (getOrder oenv' (Some (Order.ID order)) ot) =
           \<lparr>status = 200, body = json_of_Order order\<rparr>) \<and>
      (GetItem_fails oenv' = Some om \<longrightarrow>
         fst (getOrder oenv' (Some (Order.ID order)) ot) =
           \<lparr>status = 500, body = H ''error'' ''failed to fetch order''\<rparr>)) \<and>
   (reachable_products ps \<longrightarrow> ShouldBindJSON_Product pb = Inr pr \<longrightarrow>
      status (fst (createProduct penv pb ps)) = 201 \<longrightarrow>
      products_later (snd (createProduct penv pb ps)) pt \<longrightarrow>
      (RedisGet_fails penv' = None \<longrightarrow>
       (cache pt (Product.ID pr) \<noteq> None \<or> DBGet_fails penv' = None) \<longrightarrow>
         fst (getProduct penv' (Some (Product.ID pr)) pt) =
           \<lparr>status = 200, body = json_of_Product pr\<rparr>) \<and>
      (RedisGet_fails penv' = Some pm \<longrightarrow>
         fst (getProduct penv' (Some (Product.ID pr)) pt) =
           \<lparr>status = 500, body = H ''error'' ''failed to fetch from cache''\<rparr>) \<and>
      (RedisGet_fails penv' = None \<longrightarrow> cache pt (Product.ID pr) = None \<longrightarrow>
       DBGet_fails penv' = Some pm \<longrightarrow>
         fst (getProduct penv' (Some (Product.ID pr)) pt) =
           \<lparr>status = 500, body = H ''error'' ''failed to fetch from DB''\<rparr>)) \<and>
   (reachable_customers cs \<longrightarrow> ShouldBindJSON_Customer cb = Inr cr \<longrightarrow>
      status (fst (createCustomer cenv cb cs)) = 201 \<longrightarrow>
      customers_later (snd (createCustomer cenv cb cs)) ct \<longrightarrow>
      (RedisGet_fails cenv' = None \<longrightarrow>
       (cache ct (Customer.ID cr) \<noteq> None \<or> DBGet_fails cenv' = None) \<longrightarrow>
         fst (getCustomer cenv' (Some (Customer.ID cr)) ct) =
           \<lparr>status = 200, body = json_of_Customer cr\<rparr>) \<and>
      (RedisGet_fails cenv' = Some cm \<longrightarrow>
         fst (getCustomer cenv' (Some (Customer.ID cr)) ct) =
           \<lparr>status = 500, body = H ''error'' ''failed to fetch from cache''\<rparr>) \<and>
      (RedisGet_fails cenv' = None \<longrightarrow> cache ct (Customer.ID cr) = None \<longrightarrow>
       DBGet_fails cenv' = Some cm \<longrightarrow>
         fst (getCustomer cenv' (Some (Customer.ID cr)) ct) =
           \<lparr>status = 500, body = H ''error'' ''failed to fetch from DB''\<rparr>))"
  (is "?order \<and> ?product \<and> ?customer")
proof -
  have orders: ?order by (rule order_read_later_all)
  have products: ?product by (rule product_read_later_all)
  have customers: ?customer by (rule customer_read_later_all)
  show ?thesis by (rule conjI[OF orders conjI[OF products customers]])
qed

theorem read_after_create_returns_record_witness:
  "fst (getOrder order_up (Some ''o1'')
          (snd (saveOrdersToS3 order_up
             (snd (createOrder order_up other_order_body
                (snd (getOrder order_up (Some ''o9'')
                   (snd (createOrder order_up first_order_body no_orders)))))))))
     = \<lparr>status = 200, body = json_of_Order first_order\<rparr> \<and>
   fst (getOrder get_item_fails (Some ''o1'') (snd (createOrder order_up first_order_body no_orders)))
     = \<lparr>status = 500, body = H ''error'' ''failed to fetch order''\<rparr> \<and>
   fst (getProduct up (Some ''p1'')
          (snd (createProduct up gadget_body
             (snd (createProduct up widget_body
                (snd (getProduct up (Some ''p9'')
                   (snd (createProduct set_fails widget_body empty_store)))))))))
     = \<lparr>status = 200, body = json_of_Product widget\<rparr> \<and>
   fst (getProduct db_fails (Some ''p1'') (snd (createProduct up widget_body empty_store)))
     = \<lparr>status = 200, body = json_of_Product widget\<rparr> \<and>
   fst (getCustomer up (Some ''c1'')
          (snd (getCustomer up (Some ''c9'') (snd (createCustomer up alice_body empty_store)))))
     = \<lparr>status = 200, body = json_of_Customer alice\<rparr> \<and>
   fst (getCustomer get_fails (Some ''c1'') (snd (createCustomer up alice_body empty_store)))
     = \<lparr>status = 500, body = H ''error'' ''failed to fetch from cache''\<rparr>"
proof -
  have rp: "reachable_products empty_store" by (rule reachable_products.empty)
  have rc: "reachable_customers empty_store" by (rule reachable_customers.empty)
  have other: "\<forall>other. ShouldBindJSON_Order other_order_body = Inr other \<longrightarrow>
                 Order.ID other = Order.ID first_order \<longrightarrow>
                 status (fst (createOrder order_up other_order_body
                    (snd (getOrder order_up (Some ''o9'')
                       (snd (createOrder order_up first_order_body no_orders)))))) = 201 \<longrightarrow>
                 other = first_order"
    by (simp add: bind_other_order)
  have lo: "orders_later first_order (snd (createOrder order_up first_order_body no_orders))
              (snd (saveOrdersToS3 order_up
                 (snd (createOrder order_up other_order_body
                    (snd (getOrder order_up (Some ''o9'')
                       (snd (createOrder order_up first_order_body no_orders))))))))"
    by (intro orders_later.export orders_later.create[OF _ other] orders_later.read orders_later.now)
  have lo0: "orders_later first_order (snd (createOrder order_up first_order_body no_orders))
               (snd (createOrder order_up first_order_body no_orders))"
    by (rule orders_later.now)
  have lp: "products_later (snd (createProduct set_fails widget_body empty_store))
              (snd (createProduct up gadget_body
                 (snd (createProduct up widget_body
                    (snd (getProduct up (Some ''p9'')
                       (snd (createProduct set_fails widget_body empty_store))))))))"
    by (intro products_later.create products_later.read products_later.now)
  have lp0: "products_later (snd (createProduct up widget_body empty_store))
               (snd (createProduct up widget_body empty_store))"
    by (rule products_later.now)
  have lc: "customers_later (snd (createCustomer up alice_body empty_store))
              (snd (getCustomer up (Some ''c9'') (snd (createCustomer up alice_body empty_store))))"
    by (intro customers_later.read customers_later.now)
  have lc0: "customers_later (snd (createCustomer up alice_body empty_store))
               (snd (createCustomer up alice_body empty_store))"
    by (rule customers_later.now)
  from rp rc lo lp lc
    read_after_create_returns_record
      [where ob = first_order_body and order = first_order and oenv = order_up and os = no_orders
         and ot = "snd (saveOrdersToS3 order_up
                 (snd (createOrder order_up other_order_body
                    (snd (getOrder order_up (Some ''o9'')
                       (snd (createOrder order_up first_order_body no_orders)))))))"
         and oenv' = order_up
         and ps = empty_store and pb = widget_body and pr = widget and penv = set_fails
         and pt = "snd (createProduct up gadget_body
                 (snd (createProduct up widget_body
                    (snd (getProduct up (Some ''p9'')
                       (snd (createProduct set_fails widget_body empty_store)))))))"
         and penv' = up
         and cs = empty_store and cb = alice_body and cr = alice and cenv = up
         and ct = "snd (getCustomer up (Some ''c9'') (snd (createCustomer up alice_body empty_store)))"
         and cenv' = up]
  have first: "fst (getOrder order_up (Some ''o1'')
          (snd (saveOrdersToS3 order_up
             (snd (createOrder order_up other_order_body
                (snd (getOrder order_up (Some ''o9'')
                   (snd (createOrder order_up first_order_body no_orders)))))))))
     = \<lparr>status = 200, body = json_of_Order first_order\<rparr> \<and>
   fst (getProduct up (Some ''p1'')
          (snd (createProduct up gadget_body
             (snd (createProduct up widget_body
                (snd (getProduct up (Some ''p9'')
                   (snd (createProduct set_fails widget_body empty_store)))))))))
     = \<lparr>status = 200, body = json_of_Product widget\<rparr> \<and>
   fst (getCustomer up (Some ''c1'')
          (snd (getCustomer up (Some ''c9'') (snd (createCustomer up alice_body empty_store)))))
     = \<lparr>status = 200, body = json_of_Customer alice\<rparr>"
    by (simp add: bind_examples created_examples)
  from rp rc lo0 lp0 lc0
    read_after_create_returns_record
      [where ob = first_order_body and order = first_order and oenv = order_up and os = no_orders
         and ot = "snd (createOrder order_up first_order_body no_orders)"
         and oenv' = get_item_fails and om = "''request timeout''"
         and ps = empty_store and pb = widget_body and pr = widget and penv = up
         and pt = "snd (createProduct up widget_body empty_store)"
         and penv' = db_fails
         and cs = empty_store and cb = alice_body and cr = alice and cenv = up
         and ct = "snd (createCustomer up alice_body empty_store)"
         and cenv' = get_fails and cm = "''i/o timeout''"]
  have second: "fst (getOrder get_item_fails (Some ''o1'') (snd (createOrder order_up first_order_body no_orders)))
     = \<lparr>status = 500, body = H ''error'' ''failed to fetch order''\<rparr> \<and>
   fst (getProduct db_fails (Some ''p1'') (snd (createProduct up widget_body empty_store)))
     = \<lparr>status = 200, body = json_of_Product widget\<rparr> \<and>
   fst (getCustomer get_fails (Some ''c1'') (snd (createCustomer up alice_body empty_store)))
     = \<lparr>status = 500, body = H ''error'' ''failed to fetch from cache''\<rparr>"
    by (simp add: bind_examples created_examples)
  from first second show ?thesis by simp
qed

theorem read_after_create_counterexample:
  "status (fst (createProduct up widget_body empty_store)) = 201 \<and>
   fst (getProduct get_fails (Some ''p1'')
          (snd (createProduct up widget_body empty_store)))
     = \<lparr>status = 500, body = H ''error'' ''failed to fetch from cache''\<rparr>"
  by (simp add: created_examples getProduct_cache_error)

section \<open>The cache write of a create request\<close>

text \<open>
  C8, as amended. In the product and the customer service, every create request whose body
  decodes and whose insert succeeds (answer 201) issues, right after the \<open>INSERT\<close>, a Redis
  \<open>SET\<close> of the encoded record under its id with expiration 0. When that \<open>SET\<close> goes through,
  the cache holds the record, and a read of the same id that follows immediately, with no
  read before it, is answered 200 from the cache: its only remote call is the Redis \<open>GET\<close>.
  When the \<open>SET\<close> fails, the cache is left as it was.

  As stated, for every create whose insert succeeds, the claim fails: with a failing \<open>SET\<close>
  the create is still answered 201, the cache has no entry for the id, and the read that
  follows goes to the primary store.
\<close>

theorem create_fills_cache:
  "(ShouldBindJSON_Product pb = Inr pr \<longrightarrow> status (fst (createProduct penv pb ps)) = 201 \<longrightarrow>
      calls (snd (createProduct penv pb ps)) =
        calls ps @ [DBExec ''INSERT INTO product (id, name, category) VALUES (?, ?, ?)''
                     [Product.ID pr, Product.Name pr, Category pr],
                   RedisSet (Product.ID pr) (JSON (json_of_Product pr)) 0] \<and>
      (RedisSet_fails penv = None \<longrightarrow>
         cache (snd (createProduct penv pb ps)) (Product.ID pr) = Some (JSON (json_of_Product pr)) \<and>
         (RedisGet_fails penv' = None \<longrightarrow>
            getProduct penv' (Some (Product.ID pr)) (snd (createProduct penv pb ps)) =
              (\<lparr>status = 200, body = json_of_Product pr\<rparr>,
               (snd (createProduct penv pb ps))
                 \<lparr>calls := calls (snd (createProduct penv pb ps)) @ [RedisGet (Product.ID pr)]\<rparr>))) \<and>
      (RedisSet_fails penv = Some pm \<longrightarrow> cache (snd (createProduct penv pb ps)) = cache ps)) \<and>
   (ShouldBindJSON_Customer cb = Inr cr \<longrightarrow> status (fst (createCustomer cenv cb cs)) = 201 \<longrightarrow>
      calls (snd (createCustomer cenv cb cs)) =
        calls cs @ [DBExec ''INSERT INTO customers (id, name, gender) VALUES (?, ?, ?)''
                     [Customer.ID cr, Customer.Name cr, Gender cr],
                   RedisSet (Customer.ID cr) (JSON (json_of_Customer cr)) 0] \<and>
      (RedisSet_fails cenv = None \<longrightarrow>
         cache (snd (createCustomer cenv cb cs)) (Customer.ID cr) = Some (JSON (json_of_Customer cr)) \<and>
         (RedisGet_fails cenv' = None \<longrightarrow>
            getCustomer cenv' (Some (Customer.ID cr)) (snd (createCustomer cenv cb cs)) =
              (\<lparr>status = 200, body = json_of_Customer cr\<rparr>,
               (snd (createCustomer cenv cb cs))
                 \<lparr>calls := calls (snd (createCustomer cenv cb cs)) @ [RedisGet (Customer.ID cr)]\<rparr>))) \<and>
      (RedisSet_fails cenv = Some cm \<longrightarrow> cache (snd (createCustomer cenv cb cs)) = cache cs))"
  (is "?product \<and> ?customer")
proof
  show ?product by (rule product_create_then_hit_all)
  show ?customer by (rule customer_create_then_hit_all)
qed

theorem create_fills_cache_witness:
  "calls (snd (createProduct up widget_body empty_store)) =
     [DBExec ''INSERT INTO product (id, name, category) VALUES (?, ?, ?)'' [''p1'', ''widget'', ''tools''],
      RedisSet ''p1'' (JSON (json_of_Product widget)) 0] \<and>
   calls (snd (getProduct db_fails (Some ''p1'')
                 (snd (createProduct up widget_body empty_store)))) =
     [DBExec ''INSERT INTO product (id, name, category) VALUES (?, ?, ?)'' [''p1'', ''widget'', ''tools''],
      RedisSet ''p1'' (JSON (json_of_Product widget)) 0, RedisGet ''p1''] \<and>
   fst (getProduct db_fails (Some ''p1'')
          (snd (createProduct up widget_body empty_store)))
     = \<lparr>status = 200, body = json_of_Product widget\<rparr> \<and>
   cache (snd (createProduct set_fails widget_body empty_store)) = Map.empty \<and>
   fst (getCustomer db_fails (Some ''c1'')
          (snd (createCustomer up alice_body empty_store)))
     = \<lparr>status = 200, body = json_of_Customer alice\<rparr> \<and>
   cache (snd (createCustomer set_fails alice_body empty_store)) = Map.empty"
  using
    create_fills_cache
      [where pb = widget_body and pr = widget and penv = up and ps = empty_store
         and penv' = db_fails
         and cb = alice_body and cr = alice and cenv = up and cs = empty_store
         and cenv' = db_fails]
    create_fills_cache
      [where pb = widget_body and pr = widget and penv = set_fails
         and ps = empty_store and pm = "''READONLY''"
         and cb = alice_body and cr = alice and cenv = set_fails
         and cs = empty_store and cm = "''READONLY''"]
  by (simp add: bind_examples created_examples)

theorem create_fills_cache_counterexample:
  "status (fst (createProduct set_fails widget_body empty_store)) = 201 \<and>
   cache (snd (createProduct set_fails widget_body empty_store)) ''p1'' = None \<and>
   calls (snd (getProduct up (Some ''p1'')
                 (snd (createProduct set_fails widget_body empty_store)))) =
     [DBExec ''INSERT INTO product (id, name, category) VALUES (?, ?, ?)'' [''p1'', ''widget'', ''tools''],
      RedisSet ''p1'' (JSON (json_of_Product widget)) 0,
      RedisGet ''p1'',
      DBGet ''SELECT id, name, category FROM product WHERE id = ?'' [''p1''],
      RedisSet ''p1'' (JSON (json_of_Product widget)) 0]"
  by (simp add: created_examples getProduct_miss_db_found DefaultQuery_def)

section \<open>Creating a record whose id exists already\<close>

text \<open>
  C5, as amended. A create request whose id is already in the primary store makes the write
  at once, with no lookup before it: the only remote call of the request is the \<open>INSERT\<close>
  (product, customer) or the \<open>PutItem\<close> (order). In the product and the customer service the
  \<open>INSERT\<close> fails (with the duplicate-entry error of the store when the store is reachable),
  the request is answered 500, and rows and cache are unchanged. In the order service the
  \<open>PutItem\<close> carries no condition, so it replaces the stored item: the request is answered
  201, the table has as many items as before, and the item under the id is the new one; only
  when the \<open>PutItem\<close> call itself fails is the request answered 500 with the table unchanged.

  As stated for every service, the claim fails for the order service: creating an order under
  an id that exists is answered 201, and a read then returns the second record.
\<close>

theorem duplicate_id_create:
  "(ShouldBindJSON_Product pb = Inr pr \<longrightarrow> (\<exists>r \<in> set (rows ps). Product.ID r = Product.ID pr) \<longrightarrow>
      createProduct penv pb ps =
        (\<lparr>status = 500, body = H ''error'' ''failed to save to DB''\<rparr>,
         ps\<lparr>calls := calls ps @ [DBExec ''INSERT INTO product (id, name, category) VALUES (?, ?, ?)''
                                  [Product.ID pr, Product.Name pr, Category pr]]\<rparr>) \<and>
      (DBExec_fails penv = None \<longrightarrow>
         fst (saveToDB_product penv pr ps) = Some (ErrDuplicateEntry (Product.ID pr)))) \<and>
   (ShouldBindJSON_Customer cb = Inr cr \<longrightarrow> (\<exists>r \<in> set (rows cs). Customer.ID r = Customer.ID cr) \<longrightarrow>
      createCustomer cenv cb cs =
        (\<lparr>status = 500, body = H ''error'' ''failed to save to DB''\<rparr>,
         cs\<lparr>calls := calls cs @ [DBExec ''INSERT INTO customers (id, name, gender) VALUES (?, ?, ?)''
                                  [Customer.ID cr, Customer.Name cr, Gender cr]]\<rparr>) \<and>
      (DBExec_fails cenv = None \<longrightarrow>
         fst (saveToDB_customer cenv cr cs) = Some (ErrDuplicateEntry (Customer.ID cr)))) \<and>
   (ShouldBindJSON_Order ob = Inr order \<longrightarrow>
      (\<exists>it \<in> set (table os). it ''id'' = Some (AttributeValueMemberS (Order.ID order))) \<longrightarrow>
      (PutItem_fails oenv = None \<longrightarrow>
         createOrder oenv ob os =
           (\<lparr>status = 201, body = H ''message'' ''Order created successfully''\<rparr>,
            os\<lparr>order_calls := order_calls os @ [PutItem (item_of_Order order)],
               table := put_item (item_of_Order order) (table os)\<rparr>) \<and>
         find (\<lambda>it. it ''id'' = Some (AttributeValueMemberS (Order.ID order)))
           (put_item (item_of_Order order) (table os)) = Some (item_of_Order order) \<and>
         length (put_item (item_of_Order order) (table os)) = length (table os)) \<and>
      (PutItem_fails oenv = Some om \<longrightarrow>
         createOrder oenv ob os =
           (\<lparr>status = 500, body = H ''error'' ''failed to save order''\<rparr>,
            os\<lparr>order_calls := order_calls os @ [PutItem (item_of_Order order)]\<rparr>)))"
  (is "?product \<and> ?customer \<and> ?order")
proof -
  have products: ?product by (rule product_duplicate_insert)
  have customers: ?customer by (rule customer_duplicate_insert)
  have orders: ?order by (rule order_duplicate_put)
  show ?thesis by (rule conjI[OF products conjI[OF customers orders]])
qed

theorem duplicate_id_create_witness:
  "createProduct up widget_body (snd (createProduct up widget_body empty_store)) =
     (\<lparr>status = 500, body = H ''error'' ''failed to save to DB''\<rparr>,
      \<lparr>rows = [widget], cache = [''p1'' \<mapsto> JSON (json_of_Product widget)],
       calls = [DBExec ''INSERT INTO product (id, name, category) VALUES (?, ?, ?)'' [''p1'', ''widget'', ''tools''],
                RedisSet ''p1'' (JSON (json_of_Product widget)) 0,
                DBExec ''INSERT INTO product (id, name, category) VALUES (?, ?, ?)'' [''p1'', ''widget'', ''tools'']]\<rparr>) \<and>
   fst (createCustomer up alice_body (snd (createCustomer up alice_body empty_store))) =
     \<lparr>status = 500, body = H ''error'' ''failed to save to DB''\<rparr> \<and>
   fst (createOrder order_up second_order_body (snd (createOrder order_up first_order_body no_orders))) =
     \<lparr>status = 201, body = H ''message'' ''Order created successfully''\<rparr> \<and>
   length (table (snd (createOrder order_up second_order_body
                         (snd (createOrder order_up first_order_body no_orders))))) = 1"
  using
    duplicate_id_create
      [where pb = widget_body and pr = widget and penv = up
         and ps = "snd (createProduct up widget_body empty_store)"
         and cb = alice_body and cr = alice and cenv = up
         and cs = "snd (createCustomer up alice_body empty_store)"
         and ob = second_order_body
         and order = "\<lparr>Order.ID = ''o1'', CustomerID = ''c2'', ProductID = ''p2''\<rparr>"
         and oenv = order_up and os = "snd (createOrder order_up first_order_body no_orders)"]
  by (simp add: bind_examples created_examples item_of_Order_id)

theorem duplicate_id_create_counterexample:
  "status (fst (createOrder order_up first_order_body no_orders)) = 201 \<and>
   status (fst (createOrder order_up second_order_body
                  (snd (createOrder order_up first_order_body no_orders)))) = 201 \<and>
   fst (getOrder order_up (Some ''o1'')
          (snd (createOrder order_up second_order_body
                  (snd (createOrder order_up first_order_body no_orders))))) =
     \<lparr>status = 200,
      body = JObject [(''id'', JString ''o1''), (''customerid'', JString ''c2''),
                      (''productid'', JString ''p2'')]\<rparr>"
  by (simp add: created_examples createOrder_put bind_examples getOrder_found find_put_item
        item_of_Order_id DefaultQuery_def Order_of_item_of_Order json_of_Order_def)

section \<open>The bulk export of orders\<close>

text \<open>
  C6, as amended. A successful bulk export (answer 200) leaves the table as it is and writes,
  under the fixed key \<open>orders_data.json\<close> and under no other key, one JSON document built
  from the items of the response of the one \<open>Scan\<close> call, in their order. When that response
  holds the whole table and the table has \<open>n \<ge> 1\<close> items, the document is an array of
  length \<open>n\<close>, whose elements are the items read as order records. For the empty table the
  slice of orders is still nil and the document is \<open>null\<close>, not an empty array. A second
  successful export from the state the first one left, both scans holding the whole table,
  writes the same document, so the objects of the bucket are the same as after the first.
  What is exported when the response stops before the end of the table is not part of the
  amended claim.

  As stated, with an array also for the empty table, the claim fails: the export of an empty
  table writes \<open>null\<close>.
\<close>

theorem export_writes_scan_as_one_document:
  "(status (fst (saveOrdersToS3 env s)) = 200 \<longrightarrow>
      objects (snd (saveOrdersToS3 env s)) ''orders_data.json'' =
        Some (JSON (if scan_page env (table s) = [] then JNull
                    else JArray (map (\<lambda>it. json_of_Order (Order_of_item it)) (scan_page env (table s))))) \<and>
      (\<forall>k. k \<noteq> ''orders_data.json'' \<longrightarrow> objects (snd (saveOrdersToS3 env s)) k = objects s k) \<and>
      table (snd (saveOrdersToS3 env s)) = table s \<and>
      (Scan_page env = None \<longrightarrow> table s \<noteq> [] \<longrightarrow>
         (\<exists>xs. objects (snd (saveOrdersToS3 env s)) ''orders_data.json'' = Some (JSON (JArray xs)) \<and>
               length xs = length (table s))) \<and>
      (Scan_page env = None \<longrightarrow> table s = [] \<longrightarrow>
         objects (snd (saveOrdersToS3 env s)) ''orders_data.json'' = Some (JSON JNull)) \<and>
      (Scan_page env = None \<longrightarrow> Scan_page env' = None \<longrightarrow>
       status (fst (saveOrdersToS3 env' (snd (saveOrdersToS3 env s)))) = 200 \<longrightarrow>
         objects (snd (saveOrdersToS3 env' (snd (saveOrdersToS3 env s)))) =
           objects (snd (saveOrdersToS3 env s))))"
proof (intro impI)
  assume "status (fst (saveOrdersToS3 env s)) = 200"
  then have up: "Scan_fails env = None" "PutObject_fails env = None"
    by (simp_all add: saveOrdersToS3_status)
  note first = saveOrdersToS3_done[OF up]
  have again: "objects (snd (saveOrdersToS3 env' (snd (saveOrdersToS3 env s)))) =
                 objects (snd (saveOrdersToS3 env s))"
    if whole: "Scan_page env = None" "Scan_page env' = None"
      and "status (fst (saveOrdersToS3 env' (snd (saveOrdersToS3 env s)))) = 200"
  proof -
    from that have up': "Scan_fails env' = None" "PutObject_fails env' = None"
      by (simp_all add: saveOrdersToS3_status)
    show ?thesis
      by (simp add: saveOrdersToS3_done[OF up'] first scan_page_whole whole)
  qed
  show "objects (snd (saveOrdersToS3 env s)) ''orders_data.json'' =
        Some (JSON (if scan_page env (table s) = [] then JNull
                    else JArray (map (\<lambda>it. json_of_Order (Order_of_item it)) (scan_page env (table s))))) \<and>
      (\<forall>k. k \<noteq> ''orders_data.json'' \<longrightarrow> objects (snd (saveOrdersToS3 env s)) k = objects s k) \<and>
      table (snd (saveOrdersToS3 env s)) = table s \<and>
      (Scan_page env = None \<longrightarrow> table s \<noteq> [] \<longrightarrow>
         (\<exists>xs. objects (snd (saveOrdersToS3 env s)) ''orders_data.json'' = Some (JSON (JArray xs)) \<and>
               length xs = length (table s))) \<and>
      (Scan_page env = None \<longrightarrow> table s = [] \<longrightarrow>
         objects (snd (saveOrdersToS3 env s)) ''orders_data.json'' = Some (JSON JNull)) \<and>
      (Scan_page env = None \<longrightarrow> Scan_page env' = None \<longrightarrow>
       status (fst (saveOrdersToS3 env' (snd (saveOrdersToS3 env s)))) = 200 \<longrightarrow>
         objects (snd (saveOrdersToS3 env' (snd (saveOrdersToS3 env s)))) =
           objects (snd (saveOrdersToS3 env s)))"
    using again by (simp add: first scan_page_whole)
qed

theorem export_writes_scan_as_one_document_witness:
  "status (fst (saveOrdersToS3 order_up
     \<lparr>table = [item_of_Order first_order, [''id'' \<mapsto> AttributeValueMemberS ''o2'']],
      objects = Map.empty, order_calls = []\<rparr>)) = 200 \<and>
   objects (snd (saveOrdersToS3 order_up
     \<lparr>table = [item_of_Order first_order, [''id'' \<mapsto> AttributeValueMemberS ''o2'']],
      objects = Map.empty, order_calls = []\<rparr>)) ''orders_data.json'' =
     Some (JSON (JArray [JObject [(''id'', JString ''o1''), (''customerid'', JString ''c1''), (''productid'', JString ''p1'')],
                         JObject [(''id'', JString ''o2''), (''customerid'', JString []), (''productid'', JString [])]])) \<and>
   objects (snd (saveOrdersToS3 order_up (snd (saveOrdersToS3 order_up
     \<lparr>table = [item_of_Order first_order, [''id'' \<mapsto> AttributeValueMemberS ''o2'']],
      objects = Map.empty, order_calls = []\<rparr>)))) =
   objects (snd (saveOrdersToS3 order_up
     \<lparr>table = [item_of_Order first_order, [''id'' \<mapsto> AttributeValueMemberS ''o2'']],
      objects = Map.empty, order_calls = []\<rparr>))"
proof -
  let ?s = "\<lparr>table = [item_of_Order first_order, [''id'' \<mapsto> AttributeValueMemberS ''o2'']],
             objects = Map.empty, order_calls = []\<rparr>"
  have st: "status (fst (saveOrdersToS3 order_up ?s)) = 200"
    by (simp add: saveOrdersToS3_status)
  have st': "status (fst (saveOrdersToS3 order_up (snd (saveOrdersToS3 order_up ?s)))) = 200"
    by (simp add: saveOrdersToS3_status)
  from st st' export_writes_scan_as_one_document[where env = order_up and env' = order_up and s = ?s]
  show ?thesis
    by (simp add: json_of_Order_def Order_of_item_def string_or_empty_def item_of_Order_def
          scan_page_def)
qed

theorem export_writes_scan_as_one_document_counterexample:
  "status (fst (saveOrdersToS3 order_up no_orders)) = 200 \<and>
   objects (snd (saveOrdersToS3 order_up no_orders)) ''orders_data.json'' = Some (JSON JNull) \<and>
   objects (snd (saveOrdersToS3 order_up no_orders)) ''orders_data.json'' \<noteq> Some (JSON (JArray []))"
  by (simp add: saveOrdersToS3_done scan_page_def)

end
